theory Spec2Isabelle
  imports Main "HOL-Library.Multiset"
begin

section \<open>Password policy (pkg/utils/auth.go, internal/service/admin.go)\<close>

text \<open>
  A Go \<open>string\<close> is a sequence of bytes and \<open>len\<close> counts bytes; an Isabelle
  \<open>string\<close> is a list of 8-bit characters, so \<open>length\<close> is Go's \<open>len\<close>.

  The policy's regular expression is one character class,
  \<^verbatim>\<open>[!@#$%^&*()_+\-=\[\]{};':"\\|,.<>\/?]\<close>. Every member is an ASCII character, and
  in UTF-8 an ASCII byte never occurs inside the encoding of another code point, so
  \<open>MatchString\<close> holds exactly when some byte of the input is a member of the class.
  The single quote, the double quote and the backslash are written by their codes.
\<close>

definition specialCharRegex :: "char list" where
  "specialCharRegex =
     ''!@#$%^&*()_+-=[]{};'' @ [CHR 0x27] @ '':'' @ [CHR 0x22, CHR 0x5C] @ ''|,.<>/?''"

definition MatchString :: "char list \<Rightarrow> string \<Rightarrow> bool" where
  "MatchString cls s = list_ex (\<lambda>c. c \<in> set cls) s"

text \<open>The two reasons, as the UTF-8 bytes of the Russian sentences in the source.\<close>

definition msgTooShort :: string where
  "msgTooShort = map char_of
     [208, 159, 208, 176, 209, 128, 208, 190, 208, 187, 209, 140, 32, 208, 180, 208, 190,
      208, 187, 208, 182, 208, 181, 208, 189, 32, 209, 129, 208, 190, 208, 180, 208, 181,
      209, 128, 208, 182, 208, 176, 209, 130, 209, 140, 32, 208, 188, 208, 184, 208, 189,
      208, 184, 208, 188, 209, 131, 208, 188, 32, 54, 32, 209, 129, 208, 184, 208, 188,
      208, 178, 208, 190, 208, 187, 208, 190, 208, 178 :: nat]"

definition msgNoSpecial :: string where
  "msgNoSpecial = map char_of
     [208, 159, 208, 176, 209, 128, 208, 190, 208, 187, 209, 140, 32, 208, 180, 208, 190,
      208, 187, 208, 182, 208, 181, 208, 189, 32, 209, 129, 208, 190, 208, 180, 208, 181,
      209, 128, 208, 182, 208, 176, 209, 130, 209, 140, 32, 209, 133, 208, 190, 209, 130,
      209, 143, 32, 208, 177, 209, 139, 32, 208, 190, 208, 180, 208, 184, 208, 189, 32,
      209, 129, 208, 191, 208, 181, 209, 134, 208, 184, 208, 176, 208, 187, 209, 140, 208,
      189, 209, 139, 208, 185, 32, 209, 129, 208, 184, 208, 188, 208, 178, 208, 190, 208,
      187, 32, 40, 33, 64, 35, 36, 37, 94, 38, 42, 32, 208, 184, 32, 209, 130, 46, 208,
      180, 46, 41 :: nat]"

text \<open>\<open>validatePassword\<close> of the admin service.\<close>

definition validatePassword :: "string \<Rightarrow> bool \<times> string" where
  "validatePassword password =
     (if length password < 6 then (False, msgTooShort)
      else if \<not> MatchString specialCharRegex password then (False, msgNoSpecial)
      else (True, []))"

text \<open>\<open>ValidatePassword\<close> of package utils: the same body under the exported name.\<close>

definition ValidatePassword :: "string \<Rightarrow> bool \<times> string" where
  "ValidatePassword password =
     (if length password < 6 then (False, msgTooShort)
      else if \<not> MatchString specialCharRegex password then (False, msgNoSpecial)
      else (True, []))"


section \<open>Errors\<close>

text \<open>
  A Go \<open>error\<close> value. \<open>New s\<close> is \<open>errors.New(s)\<close> (and a driver error with that
  message), \<open>Wrap p e\<close> is \<open>fmt.Errorf(p + ": %w", e)\<close>. The other constructors are the
  sentinel errors of the libraries the code calls: gorm's \<open>ErrRecordNotFound\<close>, the
  token library's errors and the two errors of \<open>strconv\<close>.
\<close>

datatype error =
    New string
  | Wrap string error
  | ErrRecordNotFound
  | ErrTokenMalformed
  | ErrTokenUnverifiable
  | ErrTokenSignatureInvalid
  | ErrTokenExpired
  | ErrTokenNotValidYet
  | ErrSyntax
  | ErrRange

fun Error :: "error \<Rightarrow> string" where
  "Error (New s) = s"
| "Error (Wrap p e) = p @ '': '' @ Error e"
| "Error ErrRecordNotFound = ''record not found''"
| "Error ErrTokenMalformed = ''token is malformed''"
| "Error ErrTokenUnverifiable = ''token is unverifiable''"
| "Error ErrTokenSignatureInvalid = ''token signature is invalid''"
| "Error ErrTokenExpired = ''token is expired''"
| "Error ErrTokenNotValidYet = ''token is not valid yet''"
| "Error ErrSyntax = ''invalid syntax''"
| "Error ErrRange = ''value out of range''"

text \<open>\<open>errors.Is\<close>: the target is the error itself or is reached by unwrapping.\<close>

fun errors_Is :: "error \<Rightarrow> error \<Rightarrow> bool" where
  "errors_Is (Wrap p e) target = (Wrap p e = target \<or> errors_Is e target)"
| "errors_Is e target = (e = target)"

section \<open>Time\<close>

text \<open>
  A \<open>time.Time\<close> is an instant, here the number of nanoseconds since the Unix epoch; a
  \<open>time.Duration\<close> is a number of nanoseconds. The calendar reading of an instant in
  the process's time zone belongs to the runtime and is a parameter of the model
  (\<open>localCivil\<close> below); \<open>Format\<close> renders such a reading.
\<close>

type_synonym Time = int
type_synonym Duration = int

definition Second :: Duration where
  "Second = 1000000000"

record Civil =
  Year :: nat
  Month :: nat
  Day :: nat
  Hour :: nat
  Minute :: nat
  Sec :: nat

fun digits :: "nat \<Rightarrow> string" where
  "digits n = (if n < 10 then [char_of (48 + n)]
               else digits (n div 10) @ [char_of (48 + n mod 10)])"

declare digits.simps [simp del]

text \<open>\<open>appendInt\<close> of package time: decimal digits, zero-padded to the width.\<close>

definition appendInt :: "nat \<Rightarrow> nat \<Rightarrow> string" where
  "appendInt x width = replicate (width - length (digits x)) (CHR ''0'') @ digits x"

text \<open>
  \<open>Format\<close> for the layout \<^verbatim>\<open>02.01.2006 15:04:05\<close>, the only layout the repository
  uses: day, month, four-digit year, 24-hour clock.
\<close>

definition Format :: "Civil \<Rightarrow> string" where
  "Format c =
     appendInt (Day c) 2 @ ''.'' @ appendInt (Month c) 2 @ ''.'' @ appendInt (Year c) 4
     @ '' '' @ appendInt (Hour c) 2 @ '':'' @ appendInt (Minute c) 2 @ '':''
     @ appendInt (Sec c) 2"

section \<open>Token data (pkg/utils/auth.go, github.com/golang-jwt/jwt/v5)\<close>

text \<open>
  A \<open>NumericDate\<close> is a whole number of seconds since the epoch: \<open>NewNumericDate\<close>
  truncates its argument to the library's precision of one second.
\<close>

type_synonym NumericDate = int

definition NewNumericDate :: "Time \<Rightarrow> NumericDate" where
  "NewNumericDate t = t div Second"

definition NumericDate_Time :: "NumericDate \<Rightarrow> Time" where
  "NumericDate_Time d = d * Second"

text \<open>
  \<open>Claims\<close> of package utils: the three fields of the repository and the fields of the
  embedded \<open>jwt.RegisteredClaims\<close>.
\<close>

record Claims =
  UserID :: string
  Email :: string
  Role :: string
  Issuer :: string
  Subject :: string
  Audience :: "string list"
  ExpiresAt :: "NumericDate option"
  NotBefore :: "NumericDate option"
  IssuedAt :: "NumericDate option"
  ID :: string

text \<open>The signing methods the library registers, each with its name.\<close>

datatype SigningMethod =
    SigningMethodHMAC string
  | SigningMethodRSA string
  | SigningMethodRSAPSS string
  | SigningMethodECDSA string
  | SigningMethodEd25519
  | signingMethodNone

fun Alg :: "SigningMethod \<Rightarrow> string" where
  "Alg (SigningMethodHMAC n) = n"
| "Alg (SigningMethodRSA n) = n"
| "Alg (SigningMethodRSAPSS n) = n"
| "Alg (SigningMethodECDSA n) = n"
| "Alg SigningMethodEd25519 = ''EdDSA''"
| "Alg signingMethodNone = ''none''"

definition SigningMethodHS256 :: SigningMethod where
  "SigningMethodHS256 = SigningMethodHMAC ''HS256''"

definition GetSigningMethod :: "string \<Rightarrow> SigningMethod option" where
  "GetSigningMethod alg =
     (if alg \<in> set [''HS256'', ''HS384'', ''HS512''] then Some (SigningMethodHMAC alg)
      else if alg \<in> set [''RS256'', ''RS384'', ''RS512''] then Some (SigningMethodRSA alg)
      else if alg \<in> set [''PS256'', ''PS384'', ''PS512''] then Some (SigningMethodRSAPSS alg)
      else if alg \<in> set [''ES256'', ''ES384'', ''ES512''] then Some (SigningMethodECDSA alg)
      else if alg = ''EdDSA'' then Some SigningMethodEd25519
      else if alg = ''none'' then Some signingMethodNone
      else None)"

text \<open>
  What a token string decodes to. \<open>Malformed\<close>: the string has not three segments, or
  its header or its claims do not decode into the \<open>Claims\<close> struct. Otherwise the
  signing input (the text of the first two segments), the header's \<open>alg\<close> when it has
  one, the claims, and the signature when the third segment decodes.
\<close>

datatype Compact =
    Malformed
  | Compact string "string option" Claims "string option"

record Token =
  Token_Method :: SigningMethod
  Token_Header_alg :: string
  Token_Claims :: Claims
  Token_Valid :: bool

section \<open>The platform: library functions taken as parameters\<close>

text \<open>
  Pure functions of the libraries that are not computed here and are parameters:
  \<^item> \<open>hmacSum\<close>: the keyed hash behind the HMAC signing methods (method name, key,
    message);
  \<^item> \<open>signingString\<close>: the text of the first two segments of a token with the given header
    \<open>alg\<close> and claims (base64url of the two JSON documents, joined by a dot);
  \<^item> \<open>encodeSegment\<close>: base64url of the signature;
  \<^item> \<open>decodeCompact\<close>: splitting a token string and decoding its segments;
  \<^item> \<open>bcryptCompare\<close>: \<open>bcrypt.CompareHashAndPassword\<close> on hash and password, true when it
    returns no error;
  \<^item> \<open>localCivil\<close>: the calendar reading of an instant in the local time zone.
\<close>

record Platform =
  hmacSum :: "string \<Rightarrow> string \<Rightarrow> string \<Rightarrow> string"
  signingString :: "string \<Rightarrow> Claims \<Rightarrow> string"
  encodeSegment :: "string \<Rightarrow> string"
  decodeCompact :: "string \<Rightarrow> Compact"
  bcryptCompare :: "string \<Rightarrow> string \<Rightarrow> bool"
  localCivil :: "Time \<Rightarrow> Civil"

section \<open>Models (package models)\<close>

text \<open>
  Field names carry the struct's name, since several structs share \<open>ID\<close>, \<open>Status\<close> and
  the timestamps. A Go \<open>int\<close> field is an \<open>int\<close>: the code only stores and compares
  them. A pointer field is an \<open>option\<close>. \<open>float64\<close> values are only carried along.
\<close>

typedecl float64

type_synonym UserRole = string

definition RoleDispatcher :: UserRole where "RoleDispatcher = ''dispatcher''"
definition RoleEngineer :: UserRole where "RoleEngineer = ''engineer''"
definition RoleAdmin :: UserRole where "RoleAdmin = ''admin''"

record User =
  User_ID :: string
  User_Name :: string
  User_Email :: string
  User_PasswordHash :: string
  User_Role :: UserRole
  User_CreatedAt :: Time
  User_UpdatedAt :: Time

record LoginRequest =
  LoginRequest_Email :: string
  LoginRequest_Password :: string

record UserResponse =
  UserResponse_ID :: string
  UserResponse_Name :: string
  UserResponse_Email :: string
  UserResponse_Role :: string
  UserResponse_CreatedAt :: Time

type_synonym RUType = string

record RUInfo =
  RUInfo_ID :: string
  RUInfo_Name :: string
  RUInfo_Voltage :: string
  RUInfo_Sections :: int
  RUInfo_CellsCount :: int
  RUInfo_Transformers :: int
  RUInfo_TransformerPower :: string
  RUInfo_Location :: string
  RUInfo_InstallationDate :: string
  RUInfo_Manufacturer :: string
  RUInfo_LastMaintenance :: string
  RUInfo_NextMaintenance :: string
  RUInfo_Status :: string
  RUInfo_SchemeType :: string
  RUInfo_TotalLoadHigh :: string
  RUInfo_TotalLoadLow :: string
  RUInfo_TotalPowerHigh :: string
  RUInfo_TotalPowerLow :: string
  RUInfo_MaxCapacityHigh :: string
  RUInfo_MaxCapacityLow :: string
  RUInfo_OperationalHours :: int
  RUInfo_LastInspection :: string
  RUInfo_Type :: RUType
  RUInfo_HasHighSide :: bool
  RUInfo_HasLowSide :: bool
  RUInfo_BusSections :: int
  RUInfo_CellsPerSection :: int
  RUInfo_SubstationID :: string
  RUInfo_CreatedAt :: Time
  RUInfo_UpdatedAt :: Time

type_synonym CellType = string
type_synonym CellStatus = string

record Cell =
  Cell_ID :: int
  Cell_Number :: string
  Cell_Name :: string
  Cell_Type :: CellType
  Cell_Status :: CellStatus
  Cell_Voltage :: string
  Cell_VoltageLevel :: string
  Cell_Power :: "string option"
  Cell_Description :: string
  Cell_LastOperation :: "string option"
  Cell_IsGrounded :: bool
  Cell_LastGroundedOperation :: "string option"
  Cell_TransformerNumber :: "string option"
  Cell_BusSection :: "int option"
  Cell_Current :: "float64 option"
  Cell_Temperature :: "float64 option"
  Cell_Load :: "float64 option"
  Cell_RuID :: string
  Cell_CreatedAt :: Time
  Cell_UpdatedAt :: Time

record OperationRecord =
  OperationRecord_ID :: string
  OperationRecord_CellNumber :: string
  OperationRecord_CellName :: string
  OperationRecord_Action :: string
  OperationRecord_Operator :: string
  OperationRecord_Timestamp :: string
  OperationRecord_Reason :: "string option"
  OperationRecord_DocumentType :: "string option"
  OperationRecord_OrderNumber :: "string option"
  OperationRecord_WorkOrderNumber :: "string option"
  OperationRecord_StartDate :: "string option"
  OperationRecord_EndDate :: "string option"
  OperationRecord_ResponsiblePerson :: "string option"
  OperationRecord_Comment :: "string option"
  OperationRecord_Severity :: "string option"
  OperationRecord_RuID :: string
  OperationRecord_CreatedAt :: Time
  OperationRecord_UpdatedAt :: Time

record UpdateCellStatusRequest =
  UpdateCellStatusRequest_Status :: CellStatus
  UpdateCellStatusRequest_IsGrounded :: "bool option"

section \<open>The world: clock and database\<close>

text \<open>
  What the services read and change besides their arguments:
  \<^item> the clock: \<open>clock w n\<close> is the value of the \<open>n\<close>-th call of \<open>time.Now()\<close>, and
    \<open>ticks\<close> counts the calls made so far;
  \<^item> the four tables, each the list of its rows in the order the database returns them
    when no other order is asked for;
  \<^item> \<open>faults\<close>: the outcome of the statements still to be sent to the database. Each
    statement consumes one entry; \<open>Some e\<close> makes the statement fail with the driver
    error \<open>e\<close> and leave the tables alone, \<open>None\<close> (and an exhausted list) lets it run.
\<close>

record World =
  clock :: "nat \<Rightarrow> Time"
  ticks :: nat
  faults :: "error option list"
  users :: "User list"
  ru_infos :: "RUInfo list"
  cells :: "Cell list"
  operation_records :: "OperationRecord list"

definition Now :: "World \<Rightarrow> Time \<times> World" where
  "Now w = (clock w (ticks w), w\<lparr>ticks := ticks w + 1\<rparr>)"

definition gorm_exec :: "World \<Rightarrow> error option \<times> World" where
  "gorm_exec w =
     (case faults w of
        [] \<Rightarrow> (None, w)
      | f # fs \<Rightarrow> (f, w\<lparr>faults := fs\<rparr>))"

text \<open>
  \<open>db.Where(...).First(&row)\<close>: the first matching row, \<open>ErrRecordNotFound\<close> when no
  row matches.
\<close>

definition gorm_First :: "('r \<Rightarrow> bool) \<Rightarrow> 'r list \<Rightarrow> World \<Rightarrow> World \<times> (error + 'r)" where
  "gorm_First cond tbl w =
     (case gorm_exec w of
        (Some e, w1) \<Rightarrow> (w1, Inl e)
      | (None, w1) \<Rightarrow>
          (case filter cond tbl of
             [] \<Rightarrow> (w1, Inl ErrRecordNotFound)
           | r # _ \<Rightarrow> (w1, Inr r)))"

text \<open>
  \<open>db.Save(&row)\<close> writes every field of the row under its primary key: the stored row
  with that key is replaced, and a row whose key is not stored is inserted.
  \<open>save_row\<close> is that change of a table.
\<close>

definition save_row :: "('r \<Rightarrow> 'k) \<Rightarrow> 'r \<Rightarrow> 'r list \<Rightarrow> 'r list" where
  "save_row key r tbl =
     (if list_ex (\<lambda>x. key x = key r) tbl
      then map (\<lambda>x. if key x = key r then r else x) tbl
      else tbl @ [r])"

text \<open>
  gorm keeps a field named \<open>UpdatedAt\<close> itself: \<open>Save\<close> sets it to the current time, in
  the statement and in the struct it was given, before the statement is sent.
\<close>

definition gorm_Save_RUInfo :: "World \<Rightarrow> RUInfo \<Rightarrow> World \<times> RUInfo \<times> error option" where
  "gorm_Save_RUInfo w ruInfo =
     (let (t, w1) = Now w;
          r = ruInfo\<lparr>RUInfo_UpdatedAt := t\<rparr>
      in case gorm_exec w1 of
           (Some e, w2) \<Rightarrow> (w2, r, Some e)
         | (None, w2) \<Rightarrow> (w2\<lparr>ru_infos := save_row RUInfo_ID r (ru_infos w2)\<rparr>, r, None))"

definition gorm_Save_Cell :: "World \<Rightarrow> Cell \<Rightarrow> World \<times> Cell \<times> error option" where
  "gorm_Save_Cell w cell =
     (let (t, w1) = Now w;
          c = cell\<lparr>Cell_UpdatedAt := t\<rparr>
      in case gorm_exec w1 of
           (Some e, w2) \<Rightarrow> (w2, c, Some e)
         | (None, w2) \<Rightarrow> (w2\<lparr>cells := save_row Cell_ID c (cells w2)\<rparr>, c, None))"

text \<open>
  The history query as the repository builds it: the unit's id, the descending order on
  \<open>created_at\<close>, and a limit when one was set. \<open>Find\<close> runs it. Rows created at the same
  instant keep their table order.
\<close>

record HistoryQuery =
  query_ru_id :: string
  query_limit :: "int option"

definition order_created_at_desc :: "OperationRecord list \<Rightarrow> OperationRecord list" where
  "order_created_at_desc rs = sort_key (\<lambda>r. - OperationRecord_CreatedAt r) rs"

definition gorm_Find :: "HistoryQuery \<Rightarrow> World \<Rightarrow> World \<times> (error + OperationRecord list)" where
  "gorm_Find q w =
     (case gorm_exec w of
        (Some e, w1) \<Rightarrow> (w1, Inl e)
      | (None, w1) \<Rightarrow>
          (let rows = order_created_at_desc
                 (filter (\<lambda>r. OperationRecord_RuID r = query_ru_id q) (operation_records w1))
           in case query_limit q of
                None \<Rightarrow> (w1, Inr rows)
              | Some n \<Rightarrow> (w1, Inr (take (nat n) rows))))"

section \<open>Repositories (package repository)\<close>

definition FindByEmail :: "World \<Rightarrow> string \<Rightarrow> World \<times> (error + User option)" where
  "FindByEmail w email =
     (case gorm_First (\<lambda>u. User_Email u = email) (users w) w of
        (w1, Inl e) \<Rightarrow>
          if errors_Is e ErrRecordNotFound then (w1, Inr None)
          else (w1, Inl (Wrap ''failed to find user by email'' e))
      | (w1, Inr user) \<Rightarrow> (w1, Inr (Some user)))"

definition GetRuByID :: "World \<Rightarrow> string \<Rightarrow> World \<times> (error + RUInfo)" where
  "GetRuByID w ruID =
     (case gorm_First (\<lambda>r. RUInfo_ID r = ruID) (ru_infos w) w of
        (w1, Inl e) \<Rightarrow> (w1, Inl (Wrap ''failed to get RU by ID'' e))
      | (w1, Inr ruInfo) \<Rightarrow> (w1, Inr ruInfo))"

text \<open>
  \<open>UpdateRu\<close> and \<open>UpdateCell\<close> take a pointer; the struct as gorm leaves it is returned
  beside the error.
\<close>

definition UpdateRu :: "World \<Rightarrow> RUInfo \<Rightarrow> World \<times> RUInfo \<times> error option" where
  "UpdateRu w ruInfo =
     (case gorm_Save_RUInfo w ruInfo of
        (w1, r, Some e) \<Rightarrow> (w1, r, Some (Wrap ''failed to update RU'' e))
      | (w1, r, None) \<Rightarrow> (w1, r, None))"

definition GetCellByID :: "World \<Rightarrow> int \<Rightarrow> string \<Rightarrow> World \<times> (error + Cell)" where
  "GetCellByID w cellID ruID =
     (case gorm_First (\<lambda>c. Cell_ID c = cellID \<and> Cell_RuID c = ruID) (cells w) w of
        (w1, Inl e) \<Rightarrow> (w1, Inl (Wrap ''failed to get cell by ID'' e))
      | (w1, Inr cell) \<Rightarrow> (w1, Inr cell))"

definition UpdateCell :: "World \<Rightarrow> Cell \<Rightarrow> World \<times> Cell \<times> error option" where
  "UpdateCell w cell =
     (case gorm_Save_Cell w cell of
        (w1, c, Some e) \<Rightarrow> (w1, c, Some (Wrap ''failed to update cell'' e))
      | (w1, c, None) \<Rightarrow> (w1, c, None))"

definition RuRepository_GetHistoryByRuID ::
  "World \<Rightarrow> string \<Rightarrow> int \<Rightarrow> World \<times> (error + OperationRecord list)" where
  "RuRepository_GetHistoryByRuID w ruID limit =
     (let query = \<lparr>query_ru_id = ruID, query_limit = None\<rparr>;
          query = (if limit > 0 then query\<lparr>query_limit := Some limit\<rparr> else query)
      in case gorm_Find query w of
           (w1, Inl e) \<Rightarrow> (w1, Inl (Wrap ''failed to get history by RU ID'' e))
         | (w1, Inr records) \<Rightarrow> (w1, Inr records))"

section \<open>Tokens (pkg/utils/auth.go)\<close>

definition CheckPassword :: "Platform \<Rightarrow> string \<Rightarrow> string \<Rightarrow> bool" where
  "CheckPassword p password hash = bcryptCompare p hash password"

text \<open>
  The library's side of issuing. \<open>NewWithClaims\<close> records the method and its name in the
  header; \<open>SignedString\<close> signs the signing string and appends the encoded signature.
  The key is a byte string, which only the HMAC methods accept.
\<close>

definition NewWithClaims :: "SigningMethod \<Rightarrow> Claims \<Rightarrow> Token" where
  "NewWithClaims method claims =
     \<lparr>Token_Method = method, Token_Header_alg = Alg method, Token_Claims = claims,
      Token_Valid = False\<rparr>"

definition SignedString :: "Platform \<Rightarrow> Token \<Rightarrow> string \<Rightarrow> error + string" where
  "SignedString p token key =
     (let sstr = signingString p (Token_Header_alg token) (Token_Claims token)
      in case Token_Method token of
           SigningMethodHMAC n \<Rightarrow>
             Inr (sstr @ ''.'' @ encodeSegment p (hmacSum p n key sstr))
         | _ \<Rightarrow> Inl (New ''key is of invalid type''))"

definition GenerateToken ::
  "Platform \<Rightarrow> World \<Rightarrow> User \<Rightarrow> string \<Rightarrow> Duration \<Rightarrow> World \<times> (error + string)" where
  "GenerateToken p w user secret ttl =
     (let (t1, w1) = Now w;
          (t2, w2) = Now w1;
          claims = \<lparr>UserID = User_ID user, Email = User_Email user, Role = User_Role user,
                    Issuer = [], Subject = [], Audience = [],
                    ExpiresAt = Some (NewNumericDate (t1 + ttl)), NotBefore = None,
                    IssuedAt = Some (NewNumericDate t2), ID = []\<rparr>;
          token = NewWithClaims SigningMethodHS256 claims
      in (w2, SignedString p token secret))"

text \<open>
  The library's side of validating. \<open>Verify\<close> of an HMAC method recomputes the keyed hash
  of the signing input and compares; the other methods refuse a byte-string key.
  \<open>Validate\<close> is the library's default validator: an expiry, when present, must lie after
  the current time, and a not-before instant, when present, must not; the issued-at
  instant is not checked.
\<close>

definition Verify :: "Platform \<Rightarrow> SigningMethod \<Rightarrow> string \<Rightarrow> string \<Rightarrow> string \<Rightarrow> bool" where
  "Verify p method sstr sig key =
     (case method of
        SigningMethodHMAC n \<Rightarrow> sig = hmacSum p n key sstr
      | _ \<Rightarrow> False)"

definition Validate :: "Time \<Rightarrow> Claims \<Rightarrow> error option" where
  "Validate now claims =
     (if (case ExpiresAt claims of None \<Rightarrow> False
          | Some exp \<Rightarrow> \<not> now < NumericDate_Time exp)
      then Some ErrTokenExpired
      else if (case NotBefore claims of None \<Rightarrow> False
               | Some nbf \<Rightarrow> now < NumericDate_Time nbf)
      then Some ErrTokenNotValidYet
      else None)"

definition ParseWithClaims ::
  "Platform \<Rightarrow> World \<Rightarrow> string \<Rightarrow> (Token \<Rightarrow> error + string) \<Rightarrow> World \<times> (error + Token)" where
  "ParseWithClaims p w tokenString keyFunc =
     (case decodeCompact p tokenString of
        Malformed \<Rightarrow> (w, Inl ErrTokenMalformed)
      | Compact sstr None claims sg \<Rightarrow> (w, Inl ErrTokenUnverifiable)
      | Compact sstr (Some alg) claims sg \<Rightarrow>
          (case GetSigningMethod alg of
             None \<Rightarrow> (w, Inl ErrTokenUnverifiable)
           | Some method \<Rightarrow>
               (let token = \<lparr>Token_Method = method, Token_Header_alg = alg,
                             Token_Claims = claims, Token_Valid = False\<rparr>
                in case keyFunc token of
                     Inl e \<Rightarrow>
                       (w, Inl (Wrap ''token is unverifiable: error while executing keyfunc'' e))
                   | Inr key \<Rightarrow>
                       (case sg of
                          None \<Rightarrow> (w, Inl ErrTokenMalformed)
                        | Some sig \<Rightarrow>
                            if \<not> Verify p method sstr sig key
                            then (w, Inl ErrTokenSignatureInvalid)
                            else (let (now, w1) = Now w
                                  in case Validate now claims of
                                       Some e \<Rightarrow> (w1, Inl e)
                                     | None \<Rightarrow> (w1, Inr (token\<lparr>Token_Valid := True\<rparr>)))))))"

text \<open>The key function \<open>ValidateToken\<close> hands to the parser.\<close>

definition ValidateToken_keyFunc :: "string \<Rightarrow> Token \<Rightarrow> error + string" where
  "ValidateToken_keyFunc secret token =
     (case Token_Method token of
        SigningMethodHMAC n \<Rightarrow> Inr secret
      | _ \<Rightarrow> Inl (New (''unexpected signing method: '' @ Token_Header_alg token)))"

definition ValidateToken ::
  "Platform \<Rightarrow> World \<Rightarrow> string \<Rightarrow> string \<Rightarrow> World \<times> (error + Claims)" where
  "ValidateToken p w tokenString secret =
     (case ParseWithClaims p w tokenString (ValidateToken_keyFunc secret) of
        (w1, Inl err) \<Rightarrow> (w1, Inl err)
      | (w1, Inr token) \<Rightarrow>
          if Token_Valid token then (w1, Inr (Token_Claims token))
          else (w1, Inl (New ''invalid token'')))"

section \<open>The request context (github.com/gin-gonic/gin)\<close>

text \<open>
  A value stored in the context is an \<open>interface{}\<close>: a value with its dynamic type.
\<close>

datatype any = AnyString string | AnyInt int | AnyBool bool

datatype body = H "(string \<times> string) list" | Records "OperationRecord list" | NoBody

text \<open>
  The part of \<open>gin.Context\<close> the code reads and writes: the request (method, host,
  path, headers, query values, path parameters), the keys set by earlier handlers,
  whether the chain was aborted, and the response written (status and body; \<open>NoBody\<close>
  when only a status was written).
\<close>

record Context =
  Request_Method :: string
  Request_Host :: string
  Request_Path :: string
  Request_Header :: "string \<rightharpoonup> string"
  Request_Query :: "string \<rightharpoonup> string"
  Params :: "string \<rightharpoonup> string"
  Keys :: "string \<rightharpoonup> any"
  aborted :: bool
  written :: "(nat \<times> body) option"

definition GetHeader :: "Context \<Rightarrow> string \<Rightarrow> string" where
  "GetHeader c key = (case Request_Header c key of None \<Rightarrow> [] | Some v \<Rightarrow> v)"

definition Query :: "Context \<Rightarrow> string \<Rightarrow> string" where
  "Query c key = (case Request_Query c key of None \<Rightarrow> [] | Some v \<Rightarrow> v)"

definition Param :: "Context \<Rightarrow> string \<Rightarrow> string" where
  "Param c key = (case Params c key of None \<Rightarrow> [] | Some v \<Rightarrow> v)"

definition Get :: "Context \<Rightarrow> string \<Rightarrow> any option" where
  "Get c key = Keys c key"

definition Set :: "string \<Rightarrow> any \<Rightarrow> Context \<Rightarrow> Context" where
  "Set key v c = c\<lparr>Keys := (Keys c)(key \<mapsto> v)\<rparr>"

definition JSON :: "nat \<Rightarrow> body \<Rightarrow> Context \<Rightarrow> Context" where
  "JSON status obj c = c\<lparr>written := Some (status, obj)\<rparr>"

definition Abort :: "Context \<Rightarrow> Context" where
  "Abort c = c\<lparr>aborted := True\<rparr>"

definition StatusOK :: nat where "StatusOK = 200"
definition StatusUnauthorized :: nat where "StatusUnauthorized = 401"
definition StatusForbidden :: nat where "StatusForbidden = 403"
definition StatusInternalServerError :: nat where "StatusInternalServerError = 500"
definition MethodOptions :: string where "MethodOptions = ''OPTIONS''"

text \<open>
  A handler transforms the world and the context. A middleware is a handler that is
  given the rest of the chain: \<open>c.Next()\<close> runs it. In both middlewares of the
  repository \<open>c.Next()\<close> is the last statement of its path.
\<close>

type_synonym HandlerFunc = "World \<times> Context \<Rightarrow> World \<times> Context"

text \<open>\<open>strings.SplitN(s, " ", 2)\<close>: cut at the first space, if there is one.\<close>

definition SplitN_space_2 :: "string \<Rightarrow> string list" where
  "SplitN_space_2 s =
     (if CHR '' '' \<in> set s
      then [takeWhile (\<lambda>c. c \<noteq> CHR '' '') s, tl (dropWhile (\<lambda>c. c \<noteq> CHR '' '') s)]
      else [s])"

section \<open>Middleware (internal/middleware/auth.go)\<close>

definition AuthMiddleware :: "Platform \<Rightarrow> string \<Rightarrow> HandlerFunc \<Rightarrow> HandlerFunc" where
  "AuthMiddleware p jwtSecret next = (\<lambda>(w, c).
     if Request_Method c = MethodOptions then next (w, c)
     else
       let authHeader = GetHeader c ''Authorization'' in
       if authHeader = [] then
         (w, Abort (JSON StatusUnauthorized
                      (H [(''error'', ''authorization header is required'')]) c))
       else
         let parts = SplitN_space_2 authHeader in
         if length parts \<noteq> 2 \<or> parts ! 0 \<noteq> ''Bearer'' then
           (w, Abort (JSON StatusUnauthorized
                        (H [(''error'', ''invalid authorization header format'')]) c))
         else
           case ValidateToken p w (parts ! 1) jwtSecret of
             (w1, Inl err) \<Rightarrow>
               (w1, Abort (JSON StatusUnauthorized
                             (H [(''error'', ''invalid or expired token'')]) c))
           | (w1, Inr claims) \<Rightarrow>
               next (w1, Set ''user_role'' (AnyString (Role claims))
                           (Set ''user_email'' (AnyString (Email claims))
                              (Set ''user_id'' (AnyString (UserID claims)) c))))"

text \<open>The loop over the allowed roles, with its \<open>break\<close> at the first equal one.\<close>

fun hasAccess :: "string \<Rightarrow> string list \<Rightarrow> bool" where
  "hasAccess roleStr [] = False"
| "hasAccess roleStr (allowedRole # rest) =
     (if roleStr = allowedRole then True else hasAccess roleStr rest)"

definition RoleMiddleware :: "string list \<Rightarrow> HandlerFunc \<Rightarrow> HandlerFunc" where
  "RoleMiddleware allowedRoles next = (\<lambda>(w, c).
     case Get c ''user_role'' of
       None \<Rightarrow>
         (w, Abort (JSON StatusUnauthorized (H [(''error'', ''user role not found'')]) c))
     | Some userRole \<Rightarrow>
         (case userRole of
            AnyString roleStr \<Rightarrow>
              if \<not> hasAccess roleStr allowedRoles then
                (w, Abort (JSON StatusForbidden
                             (H [(''error'', ''insufficient permissions'')]) c))
              else next (w, c)
          | _ \<Rightarrow>
              (w, Abort (JSON StatusUnauthorized (H [(''error'', ''invalid role type'')]) c))))"

section \<open>Services (package service)\<close>

record AuthService =
  jwtSecret :: string
  jwtTTL :: Duration

record AuthResponse =
  AuthResponse_User :: UserResponse
  AuthResponse_Token :: string

definition Login ::
  "Platform \<Rightarrow> AuthService \<Rightarrow> World \<Rightarrow> LoginRequest \<Rightarrow> World \<times> (error + AuthResponse)" where
  "Login p s w req =
     (case FindByEmail w (LoginRequest_Email req) of
        (w1, Inl err) \<Rightarrow> (w1, Inl (Wrap ''failed to find user'' err))
      | (w1, Inr None) \<Rightarrow> (w1, Inl (New ''invalid email or password''))
      | (w1, Inr (Some user)) \<Rightarrow>
          if \<not> CheckPassword p (LoginRequest_Password req) (User_PasswordHash user)
          then (w1, Inl (New ''invalid email or password''))
          else
            (case GenerateToken p w1 user (jwtSecret s) (jwtTTL s) of
               (w2, Inl err) \<Rightarrow> (w2, Inl (Wrap ''failed to generate token'' err))
             | (w2, Inr token) \<Rightarrow>
                 (w2, Inr \<lparr>AuthResponse_User =
                             \<lparr>UserResponse_ID = User_ID user,
                              UserResponse_Name = User_Name user,
                              UserResponse_Email = User_Email user,
                              UserResponse_Role = User_Role user,
                              UserResponse_CreatedAt = User_CreatedAt user\<rparr>,
                           AuthResponse_Token = token\<rparr>)))"

definition UpdateCellStatus ::
  "Platform \<Rightarrow> World \<Rightarrow> string \<Rightarrow> int \<Rightarrow> UpdateCellStatusRequest \<Rightarrow> World \<times> (error + Cell)" where
  "UpdateCellStatus p w ruID cellID req =
     (case GetCellByID w cellID ruID of
        (w1, Inl err) \<Rightarrow> (w1, Inl (Wrap ''cell not found'' err))
      | (w1, Inr cell) \<Rightarrow>
          (let cell = cell\<lparr>Cell_Status := UpdateCellStatusRequest_Status req\<rparr>;
               (cell, w2) =
                 (case UpdateCellStatusRequest_IsGrounded req of
                    None \<Rightarrow> (cell, w1)
                  | Some g \<Rightarrow>
                      (let cell = cell\<lparr>Cell_IsGrounded := g\<rparr>;
                           (t, w2) = Now w1;
                           now = Format (localCivil p t)
                       in (cell\<lparr>Cell_LastGroundedOperation := Some now\<rparr>, w2)));
               (t, w3) = Now w2;
               now = Format (localCivil p t);
               cell = cell\<lparr>Cell_LastOperation := Some now\<rparr>;
               (t, w4) = Now w3;
               cell = cell\<lparr>Cell_UpdatedAt := t\<rparr>
           in case UpdateCell w4 cell of
                (w5, cell, Some err) \<Rightarrow> (w5, Inl (Wrap ''failed to update cell'' err))
              | (w5, cell, None) \<Rightarrow> (w5, Inr cell)))"

definition RuService_GetHistoryByRuID ::
  "World \<Rightarrow> string \<Rightarrow> int \<Rightarrow> World \<times> (error + OperationRecord list)" where
  "RuService_GetHistoryByRuID w ruID limit =
     (case RuRepository_GetHistoryByRuID w ruID limit of
        (w1, Inl err) \<Rightarrow> (w1, Inl (Wrap ''failed to get history'' err))
      | (w1, Inr records) \<Rightarrow> (w1, Inr records))"

text \<open>
  The loop of \<open>UpdateRUsSubstation\<close>: \<open>updatedRUs\<close> is the slice built so far,
  \<open>continue\<close> goes on with the remaining ids and \<open>return\<close> leaves the loop.
\<close>

fun UpdateRUsSubstation_loop ::
  "World \<Rightarrow> RUInfo list \<Rightarrow> string list \<Rightarrow> string \<Rightarrow> World \<times> (error + RUInfo list)" where
  "UpdateRUsSubstation_loop w updatedRUs [] substationID = (w, Inr updatedRUs)"
| "UpdateRUsSubstation_loop w updatedRUs (ruID # ruIDs) substationID =
     (case GetRuByID w ruID of
        (w1, Inl err) \<Rightarrow> UpdateRUsSubstation_loop w1 updatedRUs ruIDs substationID
      | (w1, Inr ruInfo) \<Rightarrow>
          (let ruInfo = ruInfo\<lparr>RUInfo_SubstationID := substationID\<rparr>;
               (t, w2) = Now w1;
               ruInfo = ruInfo\<lparr>RUInfo_UpdatedAt := t\<rparr>
           in case UpdateRu w2 ruInfo of
                (w3, ruInfo, Some err) \<Rightarrow>
                  (w3, Inl (Wrap (''failed to update RU '' @ ruID) err))
              | (w3, ruInfo, None) \<Rightarrow>
                  UpdateRUsSubstation_loop w3 (updatedRUs @ [ruInfo]) ruIDs substationID))"

definition UpdateRUsSubstation ::
  "World \<Rightarrow> string list \<Rightarrow> string \<Rightarrow> World \<times> (error + RUInfo list)" where
  "UpdateRUsSubstation w ruIDs substationID =
     UpdateRUsSubstation_loop w [] ruIDs substationID"

section \<open>The history handler (internal/handlers/ru.go)\<close>

text \<open>
  \<open>strconv.Atoi\<close>: an optional sign and at least one decimal digit, nothing else; the
  value must fit the 64-bit \<open>int\<close>.
\<close>

definition isDigit :: "char \<Rightarrow> bool" where
  "isDigit ch = ((48::nat) \<le> of_char ch \<and> of_char ch \<le> (57::nat))"

definition decimal :: "string \<Rightarrow> nat" where
  "decimal s = foldl (\<lambda>n ch. n * 10 + (of_char ch - 48)) 0 s"

definition Atoi :: "string \<Rightarrow> error + int" where
  "Atoi s =
     (let neg = (s \<noteq> [] \<and> hd s = CHR ''-'');
          ds = (if s \<noteq> [] \<and> (hd s = CHR ''-'' \<or> hd s = CHR ''+'') then tl s else s)
      in if ds = [] \<or> \<not> list_all isDigit ds then Inl ErrSyntax
         else (let n = (if neg then - int (decimal ds) else int (decimal ds))
               in if n < - (2 ^ 63) \<or> 2 ^ 63 - 1 < n then Inl ErrRange else Inr n))"

text \<open>The bound \<open>GetHistory\<close> computes from the request before it calls the service.\<close>

definition GetHistory_limit :: "Context \<Rightarrow> int" where
  "GetHistory_limit c =
     (let limit = 50;
          limitStr = Query c ''limit''
      in if limitStr \<noteq> [] then
           (case Atoi limitStr of
              Inr l \<Rightarrow> if l > 0 then l else limit
            | Inl err \<Rightarrow> limit)
         else limit)"

text \<open>The handler's message for a failed query, as the UTF-8 bytes of the source.\<close>

definition msgHistoryError :: string where
  "msgHistoryError = map char_of
     [208, 158, 209, 136, 208, 184, 208, 177, 208, 186, 208, 176, 32, 208, 191, 208,
      190, 208, 187, 209, 131, 209, 135, 208, 181, 208, 189, 208, 184, 209, 143, 32,
      208, 184, 209, 129, 209, 130, 208, 190, 209, 128, 208, 184, 208, 184 :: nat]"

definition GetHistory :: HandlerFunc where
  "GetHistory = (\<lambda>(w, c).
     let ruID = Param c ''id'';
         limit = GetHistory_limit c
     in case RuService_GetHistoryByRuID w ruID limit of
          (w1, Inl err) \<Rightarrow>
            (w1, JSON StatusInternalServerError
                   (H [(''error'', ''internal_error''), (''message'', msgHistoryError),
                       (''details'', Error err)]) c)
        | (w1, Inr records) \<Rightarrow> (w1, JSON StatusOK (Records records) c))"

section \<open>The router (cmd/api/main.go)\<close>

text \<open>
  The CORS middleware of \<open>gin-contrib/cors\<close> with the configuration of \<open>main.go\<close>. A
  request without an \<open>Origin\<close> header, or whose origin is its own host, is not a
  cross-origin request and goes on; a request from an origin that is not allowed is
  aborted with status 403; a pre-flight request from an allowed origin is answered with
  status 204 and goes no further. The response headers it adds are not part of the model.
\<close>

definition StatusNoContent :: nat where "StatusNoContent = 204"
definition StatusNotFound :: nat where "StatusNotFound = 404"

definition AbortWithStatus :: "nat \<Rightarrow> Context \<Rightarrow> Context" where
  "AbortWithStatus code c = Abort (c\<lparr>written := Some (code, NoBody)\<rparr>)"

definition AllowOrigins :: "string list" where
  "AllowOrigins = [''http://localhost:3000'', ''http://127.0.0.1:3000'']"

definition corsMiddleware :: "HandlerFunc \<Rightarrow> HandlerFunc" where
  "corsMiddleware next = (\<lambda>(w, c).
     let origin = GetHeader c ''Origin'';
         host = Request_Host c
     in if origin = [] then next (w, c)
        else if origin = ''http://'' @ host \<or> origin = ''https://'' @ host then next (w, c)
        else if origin \<notin> set AllowOrigins then (w, AbortWithStatus StatusForbidden c)
        else if Request_Method c = MethodOptions then (w, AbortWithStatus StatusNoContent c)
        else next (w, c))"

text \<open>
  The routes \<open>main.go\<close> registers, each with its method, its full path, the gate of the
  groups it is registered in and the name of its handler. No route is registered for the
  method OPTIONS.
\<close>

datatype Gate = Public | Protected | ProtectedRoles "string list"

record Route =
  Route_Method :: string
  Route_Path :: string
  Route_Gate :: Gate
  Route_Handler :: string

definition route :: "string \<Rightarrow> string \<Rightarrow> Gate \<Rightarrow> string \<Rightarrow> Route" where
  "route m path g h = \<lparr>Route_Method = m, Route_Path = path, Route_Gate = g, Route_Handler = h\<rparr>"

definition routes :: "Route list" where
  "routes =
     [route ''GET'' ''/api/substations/:id'' Public ''ruHandler.GetSubstationPublic'',
      route ''POST'' ''/api/auth/register'' Public ''authHandler.Register'',
      route ''POST'' ''/api/auth/login'' Public ''authHandler.Login'',
      route ''GET'' ''/api/auth/health'' Public ''auth health'',
      route ''GET'' ''/api/auth/me'' Protected ''authHandler.GetMe'',
      route ''GET'' ''/api/rus/'' Protected ''ruHandler.GetAllRUs'',
      route ''GET'' ''/api/rus/:id'' Protected ''ruHandler.GetRu'',
      route ''GET'' ''/api/rus/:id/history'' Protected ''ruHandler.GetHistory'',
      route ''PUT'' ''/api/rus/:id/cells/:cellId/status'' Protected
        ''ruHandler.UpdateCellStatus'',
      route ''POST'' ''/api/rus/:id/history'' Protected ''ruHandler.AddHistory'',
      route ''PATCH'' ''/api/rus/:id/cells/:cellId/info'' Protected
        ''ruHandler.UpdateCellInfo'',
      route ''PUT'' ''/api/rus/:id/status'' Protected ''ruHandler.UpdateRuStatus'',
      route ''PUT'' ''/api/rus/substations/:id/rus'' Protected
        ''ruHandler.UpdateSubstationRUs'',
      route ''GET'' ''/api/admin/users'' (ProtectedRoles [''admin'']) ''adminHandler.GetUsers'',
      route ''POST'' ''/api/admin/users'' (ProtectedRoles [''admin''])
        ''adminHandler.CreateUser'',
      route ''PUT'' ''/api/admin/users/:id'' (ProtectedRoles [''admin''])
        ''adminHandler.UpdateUser'',
      route ''DELETE'' ''/api/admin/users/:id'' (ProtectedRoles [''admin''])
        ''adminHandler.DeleteUser'',
      route ''PUT'' ''/api/admin/users/:id/password'' (ProtectedRoles [''admin''])
        ''adminHandler.ChangePassword'',
      route ''POST'' ''/api/admin/rus'' (ProtectedRoles [''admin'']) ''adminRuHandler.CreateRU'',
      route ''POST'' ''/api/admin/rus/:id/cells'' (ProtectedRoles [''admin''])
        ''adminRuHandler.CreateCells'',
      route ''GET'' ''/api/engineer/test'' (ProtectedRoles [''engineer'', ''admin''])
        ''engineer test'',
      route ''GET'' ''/api/dispatcher/test''
        (ProtectedRoles [''dispatcher'', ''engineer'', ''admin'']) ''dispatcher test'',
      route ''GET'' ''/health'' Public ''health'',
      route ''GET'' ''/'' Public ''root'']"

text \<open>
  The handlers gin runs for a route: the middleware of the groups the route was
  registered in, then its handler.
\<close>

definition routeChain :: "Platform \<Rightarrow> string \<Rightarrow> Gate \<Rightarrow> HandlerFunc \<Rightarrow> HandlerFunc" where
  "routeChain p secret g h =
     (case g of
        Public \<Rightarrow> h
      | Protected \<Rightarrow> AuthMiddleware p secret h
      | ProtectedRoles allowedRoles \<Rightarrow>
          AuthMiddleware p secret (RoleMiddleware allowedRoles h))"

definition NoRoute :: HandlerFunc where
  "NoRoute = (\<lambda>(w, c).
     (w, JSON StatusNotFound
           (H [(''error'', ''Not Found''),
               (''message'', ''The requested endpoint does not exist''),
               (''path'', Request_Path c)]) c))"

text \<open>
  Serving a request. gin keeps one tree of routes for each method that has a route and
  looks the path up in the tree of the request's method; with no tree for the method, or
  no route for the path, the request goes to the no-route handler. The middleware
  registered on the engine runs in both cases, of which the CORS middleware is the one
  that decides anything. The lookup of a path in a tree and the handlers that are not
  modelled here are parameters.
\<close>

record Router =
  getValue :: "Route list \<Rightarrow> string \<Rightarrow> Route option"
  handlerOf :: "string \<Rightarrow> HandlerFunc"

definition ServeHTTP :: "Platform \<Rightarrow> Router \<Rightarrow> string \<Rightarrow> HandlerFunc" where
  "ServeHTTP p r secret = (\<lambda>(w, c).
     let tree = filter (\<lambda>x. Route_Method x = Request_Method c) routes
     in case (if tree = [] then None else getValue r tree (Request_Path c)) of
          Some x \<Rightarrow>
            corsMiddleware
              (routeChain p secret (Route_Gate x) (handlerOf r (Route_Handler x))) (w, c)
        | None \<Rightarrow> corsMiddleware NoRoute (w, c))"

section \<open>Example data\<close>

text \<open>
  A small installation used to run the definitions: a platform whose keyed hash,
  encoding and calendar are simple stand-ins, one account, two equipment units, one cell
  and four history records.
\<close>

definition exampleClaims :: Claims where
  "exampleClaims =
     \<lparr>UserID = ''u1'', Email = ''a@x.com'', Role = ''engineer'',
      Issuer = [], Subject = [], Audience = [],
      ExpiresAt = Some 4600, NotBefore = None, IssuedAt = Some 1000, ID = []\<rparr>"

definition notYetClaims :: Claims where
  "notYetClaims = exampleClaims\<lparr>ExpiresAt := Some 2000, NotBefore := Some 1500\<rparr>"

definition examplePlatform :: Platform where
  "examplePlatform =
     \<lparr>hmacSum = (\<lambda>n key msg. n @ '':'' @ key @ '':'' @ msg),
      signingString = (\<lambda>alg c. alg @ ''.'' @ UserID c),
      encodeSegment = (\<lambda>s. s),
      decodeCompact = (\<lambda>s.
        if s = ''HS256.u1.HS256:key:HS256.u1''
        then Compact ''HS256.u1'' (Some ''HS256'') exampleClaims (Some ''HS256:key:HS256.u1'')
        else if s = ''HS256.u2.HS256:key:HS256.u2''
        then Compact ''HS256.u2'' (Some ''HS256'') notYetClaims (Some ''HS256:key:HS256.u2'')
        else Malformed),
      bcryptCompare = (\<lambda>hash password. hash = ''bcrypt:'' @ password),
      localCivil = (\<lambda>t. \<lparr>Year = 2026, Month = 10, Day = 31, Hour = 9, Minute = 5,
                           Sec = nat ((t div Second) mod 60)\<rparr>)\<rparr>"

definition exampleUser :: User where
  "exampleUser =
     \<lparr>User_ID = ''u1'', User_Name = ''Alice'', User_Email = ''a@x.com'',
      User_PasswordHash = ''bcrypt:Secret!1'', User_Role = RoleEngineer,
      User_CreatedAt = 0, User_UpdatedAt = 0\<rparr>"

definition unitA :: RUInfo where
  "unitA =
     \<lparr>RUInfo_ID = ''a'', RUInfo_Name = ''RU-A'', RUInfo_Voltage = ''10'',
      RUInfo_Sections = 2, RUInfo_CellsCount = 1, RUInfo_Transformers = 0,
      RUInfo_TransformerPower = [], RUInfo_Location = [], RUInfo_InstallationDate = [],
      RUInfo_Manufacturer = [], RUInfo_LastMaintenance = [], RUInfo_NextMaintenance = [],
      RUInfo_Status = ''operational'', RUInfo_SchemeType = [], RUInfo_TotalLoadHigh = [],
      RUInfo_TotalLoadLow = [], RUInfo_TotalPowerHigh = [], RUInfo_TotalPowerLow = [],
      RUInfo_MaxCapacityHigh = [], RUInfo_MaxCapacityLow = [], RUInfo_OperationalHours = 0,
      RUInfo_LastInspection = [], RUInfo_Type = ''KRU'', RUInfo_HasHighSide = True,
      RUInfo_HasLowSide = False, RUInfo_BusSections = 2, RUInfo_CellsPerSection = 1,
      RUInfo_SubstationID = ''ps-164'', RUInfo_CreatedAt = 0, RUInfo_UpdatedAt = 0\<rparr>"

definition unitC :: RUInfo where
  "unitC = unitA\<lparr>RUInfo_ID := ''c'', RUInfo_Name := ''RU-C''\<rparr>"

definition exampleCell :: Cell where
  "exampleCell =
     \<lparr>Cell_ID = 7, Cell_Number = ''7'', Cell_Name = ''Feeder'', Cell_Type = ''INPUT'',
      Cell_Status = ''ON'', Cell_Voltage = ''10'', Cell_VoltageLevel = ''high'',
      Cell_Power = None, Cell_Description = [], Cell_LastOperation = None,
      Cell_IsGrounded = False, Cell_LastGroundedOperation = None,
      Cell_TransformerNumber = None, Cell_BusSection = None, Cell_Current = None,
      Cell_Temperature = None, Cell_Load = None, Cell_RuID = ''a'', Cell_CreatedAt = 0,
      Cell_UpdatedAt = 0\<rparr>"

definition record1 :: OperationRecord where
  "record1 =
     \<lparr>OperationRecord_ID = ''h1'', OperationRecord_CellNumber = ''7'',
      OperationRecord_CellName = ''Feeder'', OperationRecord_Action = ''switch off'',
      OperationRecord_Operator = ''Alice'', OperationRecord_Timestamp = [],
      OperationRecord_Reason = None, OperationRecord_DocumentType = None,
      OperationRecord_OrderNumber = None, OperationRecord_WorkOrderNumber = None,
      OperationRecord_StartDate = None, OperationRecord_EndDate = None,
      OperationRecord_ResponsiblePerson = None, OperationRecord_Comment = None,
      OperationRecord_Severity = None, OperationRecord_RuID = ''a'',
      OperationRecord_CreatedAt = 10, OperationRecord_UpdatedAt = 10\<rparr>"

definition record2 :: OperationRecord where
  "record2 = record1\<lparr>OperationRecord_ID := ''h2'', OperationRecord_CreatedAt := 30\<rparr>"

definition record3 :: OperationRecord where
  "record3 = record1\<lparr>OperationRecord_ID := ''h3'', OperationRecord_CreatedAt := 20\<rparr>"

definition record4 :: OperationRecord where
  "record4 = record1\<lparr>OperationRecord_ID := ''h4'', OperationRecord_RuID := ''c''\<rparr>"

definition exampleWorld :: World where
  "exampleWorld =
     \<lparr>clock = (\<lambda>n. 1000 * Second + int n), ticks = 0, faults = [],
      users = [exampleUser], ru_infos = [unitA, unitC], cells = [exampleCell],
      operation_records = [record1, record2, record3, record4]\<rparr>"

definition engineerContext :: Context where
  "engineerContext =
     \<lparr>Request_Method = ''GET'', Request_Host = ''localhost:8080'',
      Request_Path = ''/api/admin/users'', Request_Header = Map.empty,
      Request_Query = Map.empty, Params = Map.empty,
      Keys = [''user_role'' \<mapsto> AnyString ''engineer''], aborted = False, written = None\<rparr>"

definition adminPreflight :: Context where
  "adminPreflight =
     \<lparr>Request_Method = ''OPTIONS'', Request_Host = ''localhost:8080'',
      Request_Path = ''/api/admin/users'', Request_Header = Map.empty,
      Request_Query = Map.empty, Params = Map.empty, Keys = Map.empty, aborted = False,
      written = None\<rparr>"

definition corsPreflight :: Context where
  "corsPreflight =
     adminPreflight\<lparr>Request_Header := [''Origin'' \<mapsto> ''http://localhost:3000'']\<rparr>"

definition historyRequest :: "string option \<Rightarrow> Context" where
  "historyRequest limit =
     \<lparr>Request_Method = ''GET'', Request_Host = ''localhost:8080'',
      Request_Path = ''/api/rus/a/history'', Request_Header = Map.empty,
      Request_Query = (\<lambda>k. if k = ''limit'' then limit else None),
      Params = [''id'' \<mapsto> ''a''], Keys = Map.empty, aborted = False, written = None\<rparr>"

definition exampleHandler :: HandlerFunc where
  "exampleHandler = (\<lambda>(w, c). (w, JSON StatusOK (H []) c))"

definition exampleRouter :: Router where
  "exampleRouter =
     \<lparr>getValue = (\<lambda>tree path. find (\<lambda>x. Route_Path x = path) tree),
      handlerOf = (\<lambda>name. exampleHandler)\<rparr>"

definition exampleAuthService :: AuthService where
  "exampleAuthService = \<lparr>jwtSecret = ''key'', jwtTTL = 3600 * Second\<rparr>"

section \<open>Properties\<close>

subsection \<open>The password policy\<close>

lemma msgTooShort_nonempty: "msgTooShort \<noteq> []"
  by (simp add: msgTooShort_def)

lemma msgNoSpecial_nonempty: "msgNoSpecial \<noteq> []"
  by (simp add: msgNoSpecial_def)

lemma MatchString_iff: "MatchString cls s \<longleftrightarrow> (\<exists>c \<in> set s. c \<in> set cls)"
  by (simp add: MatchString_def list_ex_iff)

text \<open>
  Claim C5. Both password gates accept a password exactly when it has at least six bytes
  and one of them is a special character; a rejection carries a non-empty reason.
\<close>

theorem password_policy:
  "(fst (validatePassword p) \<longleftrightarrow>
      6 \<le> length p \<and> (\<exists>c \<in> set p. c \<in> set specialCharRegex))
   \<and> (\<not> fst (validatePassword p) \<longrightarrow> snd (validatePassword p) \<noteq> [])
   \<and> ValidatePassword p = validatePassword p"
  by (auto simp: validatePassword_def ValidatePassword_def MatchString_iff
        msgTooShort_nonempty msgNoSpecial_nonempty)

theorem password_policy_witness:
  "\<not> fst (validatePassword ''abc123'')
   \<and> snd (validatePassword ''abc123'') \<noteq> []
   \<and> fst (validatePassword ''abc123!'')
   \<and> \<not> fst (ValidatePassword ''abc123'')
   \<and> fst (ValidatePassword ''abc123!'')"
  using password_policy [of "''abc123''"] password_policy [of "''abc123!''"]
  by (simp add: specialCharRegex_def)

subsection \<open>Tokens\<close>

lemma GetSigningMethod_HMAC:
  "GetSigningMethod alg = Some (SigningMethodHMAC n) \<longleftrightarrow>
     n = alg \<and> alg \<in> set [''HS256'', ''HS384'', ''HS512'']"
proof (cases "alg \<in> set [''HS256'', ''HS384'', ''HS512'']")
  case True
  then have g: "GetSigningMethod alg = Some (SigningMethodHMAC alg)"
    unfolding GetSigningMethod_def by (rule if_P)
  have "GetSigningMethod alg = Some (SigningMethodHMAC n) \<longleftrightarrow> n = alg"
    unfolding g by auto
  then show ?thesis using True by blast
next
  case False
  then have g: "GetSigningMethod alg =
     (if alg \<in> set [''RS256'', ''RS384'', ''RS512''] then Some (SigningMethodRSA alg)
      else if alg \<in> set [''PS256'', ''PS384'', ''PS512''] then Some (SigningMethodRSAPSS alg)
      else if alg \<in> set [''ES256'', ''ES384'', ''ES512''] then Some (SigningMethodECDSA alg)
      else if alg = ''EdDSA'' then Some SigningMethodEd25519
      else if alg = ''none'' then Some signingMethodNone
      else None)"
    unfolding GetSigningMethod_def by (rule if_not_P)
  have "GetSigningMethod alg \<noteq> Some (SigningMethodHMAC n)"
    unfolding g by (simp del: set_simps)
  then show ?thesis using False by blast
qed

lemma keyFunc_Inr:
  "ValidateToken_keyFunc secret token = Inr key \<longleftrightarrow>
     key = secret \<and> (\<exists>n. Token_Method token = SigningMethodHMAC n)"
  unfolding ValidateToken_keyFunc_def by (cases "Token_Method token") auto

lemma Validate_None:
  "Validate now c = None \<longleftrightarrow>
     (\<forall>exp. ExpiresAt c = Some exp \<longrightarrow> now < NumericDate_Time exp)
     \<and> (\<forall>nbf. NotBefore c = Some nbf \<longrightarrow> NumericDate_Time nbf \<le> now)"
  by (auto simp: Validate_def split: option.splits)

lemma Parse_ok:
  assumes d: "decodeCompact p s = Compact sstr (Some alg) c (Some sg)"
    and al: "GetSigningMethod alg = Some (SigningMethodHMAC alg)"
    and sg: "sg = hmacSum p alg secret sstr"
    and v: "Validate (clock w (ticks w)) c = None"
  shows "ParseWithClaims p w s (ValidateToken_keyFunc secret) =
           (w\<lparr>ticks := ticks w + 1\<rparr>,
            Inr \<lparr>Token_Method = SigningMethodHMAC alg, Token_Header_alg = alg,
                 Token_Claims = c, Token_Valid = True\<rparr>)"
  unfolding ParseWithClaims_def d
  by (simp add: al sg v ValidateToken_keyFunc_def Verify_def Now_def)

lemma Parse_Inr_D:
  assumes r: "ParseWithClaims p w s (ValidateToken_keyFunc secret) = (w1, Inr token)"
  shows "\<exists>sstr alg c.
           decodeCompact p s = Compact sstr (Some alg) c (Some (hmacSum p alg secret sstr))
         \<and> GetSigningMethod alg = Some (SigningMethodHMAC alg)
         \<and> Validate (clock w (ticks w)) c = None
         \<and> Token_Claims token = c \<and> Token_Valid token"
proof (cases "decodeCompact p s")
  case Malformed
  then show ?thesis using r by (simp add: ParseWithClaims_def)
next
  case (Compact sstr a c sg)
  note d = Compact
  show ?thesis
  proof (cases a)
    case None
    then show ?thesis using r d by (simp add: ParseWithClaims_def)
  next
    case (Some alg)
    note a = Some
    show ?thesis
    proof (cases "GetSigningMethod alg")
      case None
      then show ?thesis using r d a by (simp add: ParseWithClaims_def)
    next
      case (Some m)
      note m = Some
      let ?t = "\<lparr>Token_Method = m, Token_Header_alg = alg, Token_Claims = c,
                 Token_Valid = False\<rparr>"
      have r1: "(case ValidateToken_keyFunc secret ?t of
                 Inl e \<Rightarrow> (w, Inl (Wrap ''token is unverifiable: error while executing keyfunc'' e))
               | Inr key \<Rightarrow>
                   (case sg of
                      None \<Rightarrow> (w, Inl ErrTokenMalformed)
                    | Some sig \<Rightarrow>
                        if \<not> Verify p m sstr sig key
                        then (w, Inl ErrTokenSignatureInvalid)
                        else (let (now, w1) = Now w
                              in case Validate now c of
                                   Some e \<Rightarrow> (w1, Inl e)
                                 | None \<Rightarrow> (w1, Inr (?t\<lparr>Token_Valid := True\<rparr>)))))
               = (w1, Inr token)"
        using r unfolding ParseWithClaims_def d a by (simp add: m Let_def)
      show ?thesis
      proof (cases "ValidateToken_keyFunc secret ?t")
        case (Inl e)
        then show ?thesis using r1 by simp
      next
        case (Inr key)
        then have key: "key = secret" and "\<exists>n. m = SigningMethodHMAC n"
          unfolding keyFunc_Inr by simp_all
        then have mm: "m = SigningMethodHMAC alg"
          using m GetSigningMethod_HMAC by blast
        show ?thesis
        proof (cases sg)
          case None
          then show ?thesis using r1 Inr by simp
        next
          case (Some sig)
          note s = Some
          have r2: "(if \<not> Verify p m sstr sig secret
                        then (w, Inl ErrTokenSignatureInvalid)
                        else (let (now, w1) = Now w
                              in case Validate now c of
                                   Some e \<Rightarrow> (w1, Inl e)
                                 | None \<Rightarrow> (w1, Inr (?t\<lparr>Token_Valid := True\<rparr>))))
                    = (w1, Inr token)"
            using r1 Inr key s by simp
          have vf: "Verify p m sstr sig secret"
            using r2 by (cases "Verify p m sstr sig secret") simp_all
          then have sigeq: "sig = hmacSum p alg secret sstr"
            unfolding mm Verify_def by simp
          have r3: "(case Validate (clock w (ticks w)) c of
                       Some e \<Rightarrow> (w\<lparr>ticks := Suc (ticks w)\<rparr>, Inl e)
                     | None \<Rightarrow> (w\<lparr>ticks := Suc (ticks w)\<rparr>, Inr (?t\<lparr>Token_Valid := True\<rparr>)))
                    = (w1, Inr token)"
            using r2 vf by (simp add: Now_def)
          have vn: "Validate (clock w (ticks w)) c = None"
            using r3 by (cases "Validate (clock w (ticks w)) c") simp_all
          have tk: "token = ?t\<lparr>Token_Valid := True\<rparr>"
            using r3 vn by simp
          have "Token_Claims token = c" "Token_Valid token"
            unfolding tk by simp_all
          then show ?thesis
            using d a s sigeq m mm vn by simp
        qed
      qed
    qed
  qed
qed

lemma ValidateToken_ok:
  assumes d: "decodeCompact p s = Compact sstr (Some alg) c (Some sg)"
    and al: "alg \<in> set [''HS256'', ''HS384'', ''HS512'']"
    and sg: "sg = hmacSum p alg secret sstr"
    and v: "Validate (clock w (ticks w)) c = None"
  shows "ValidateToken p w s secret = (w\<lparr>ticks := ticks w + 1\<rparr>, Inr c)"
proof -
  have g: "GetSigningMethod alg = Some (SigningMethodHMAC alg)"
    using al GetSigningMethod_HMAC by blast
  have pr: "ParseWithClaims p w s (ValidateToken_keyFunc secret) =
           (w\<lparr>ticks := ticks w + 1\<rparr>,
            Inr \<lparr>Token_Method = SigningMethodHMAC alg, Token_Header_alg = alg,
                 Token_Claims = c, Token_Valid = True\<rparr>)"
    by (rule Parse_ok [OF d g sg v])
  show ?thesis
    unfolding ValidateToken_def pr by simp
qed

lemma ValidateToken_Inr_D:
  assumes r: "snd (ValidateToken p w s secret) = Inr c"
  shows "\<exists>sstr alg.
           decodeCompact p s = Compact sstr (Some alg) c (Some (hmacSum p alg secret sstr))
         \<and> alg \<in> set [''HS256'', ''HS384'', ''HS512'']
         \<and> Validate (clock w (ticks w)) c = None"
proof -
  obtain w1 x where x: "ParseWithClaims p w s (ValidateToken_keyFunc secret) = (w1, x)"
    by force
  show ?thesis
  proof (cases x)
    case (Inl e)
    then show ?thesis using r x by (simp add: ValidateToken_def)
  next
    case (Inr token)
    then have pr: "ParseWithClaims p w s (ValidateToken_keyFunc secret) = (w1, Inr token)"
      using x by simp
    from Parse_Inr_D [OF pr] obtain sstr alg c' where
      d: "decodeCompact p s = Compact sstr (Some alg) c' (Some (hmacSum p alg secret sstr))"
      and g: "GetSigningMethod alg = Some (SigningMethodHMAC alg)"
      and v: "Validate (clock w (ticks w)) c' = None"
      and t: "Token_Claims token = c'" "Token_Valid token"
      by blast
    have "snd (ValidateToken p w s secret) = Inr c'"
      unfolding ValidateToken_def pr using t by simp
    then have "c' = c" using r by simp
    moreover have "alg \<in> set [''HS256'', ''HS384'', ''HS512'']"
      using g GetSigningMethod_HMAC by blast
    ultimately show ?thesis using d v by blast
  qed
qed


lemmas ex_defs = examplePlatform_def exampleWorld_def exampleUser_def exampleClaims_def
  notYetClaims_def

text \<open>
  Claim C1. A token issued for a user with a secret and a time to live, validated with
  the same secret at any instant before the expiry written into it, is accepted, and the
  claims returned carry the user's id, email and role. The expiry is the issuing instant
  plus the time to live, cut to whole seconds. The first hypothesis is about the
  platform: the decoder reads back the segments the encoder wrote for this token. No
  condition on the time to live is needed beyond the second hypothesis.
\<close>

theorem token_round_trip:
  fixes p :: Platform and w w' :: World and user :: User and secret :: string
    and ttl :: Duration
  defines "claims \<equiv>
     \<lparr>UserID = User_ID user, Email = User_Email user, Role = User_Role user,
      Issuer = [], Subject = [], Audience = [],
      ExpiresAt = Some (NewNumericDate (clock w (ticks w) + ttl)), NotBefore = None,
      IssuedAt = Some (NewNumericDate (clock w (ticks w + 1))), ID = []\<rparr>"
  defines "sstr \<equiv> signingString p ''HS256'' claims"
  defines "tokenString \<equiv> sstr @ ''.'' @ encodeSegment p (hmacSum p ''HS256'' secret sstr)"
  assumes wire: "decodeCompact p tokenString =
      Compact sstr (Some ''HS256'') claims (Some (hmacSum p ''HS256'' secret sstr))"
    and before: "clock w' (ticks w') <
      NumericDate_Time (NewNumericDate (clock w (ticks w) + ttl))"
  shows "snd (GenerateToken p w user secret ttl) = Inr tokenString
       \<and> (\<exists>c. snd (ValidateToken p w' tokenString secret) = Inr c
              \<and> UserID c = User_ID user \<and> Email c = User_Email user
              \<and> Role c = User_Role user)"
proof -
  have gen: "snd (GenerateToken p w user secret ttl) = Inr tokenString"
    by (simp add: GenerateToken_def Now_def NewWithClaims_def SignedString_def
        SigningMethodHS256_def tokenString_def sstr_def claims_def Let_def)
  have v: "Validate (clock w' (ticks w')) claims = None"
    unfolding Validate_None using before by (simp add: claims_def)
  have al: "''HS256'' \<in> set [''HS256'', ''HS384'', ''HS512'']"
    by simp
  have "snd (ValidateToken p w' tokenString secret) = Inr claims"
    using ValidateToken_ok [OF wire al refl v] by simp
  moreover have "UserID claims = User_ID user \<and> Email claims = User_Email user
              \<and> Role claims = User_Role user"
    by (simp add: claims_def)
  ultimately show ?thesis using gen by blast
qed

theorem token_round_trip_witness:
  "(0::int) < 3600 * Second
   \<and> decodeCompact examplePlatform ''HS256.u1.HS256:key:HS256.u1'' =
       Compact ''HS256.u1'' (Some ''HS256'') exampleClaims (Some ''HS256:key:HS256.u1'')
   \<and> clock exampleWorld 2 < NumericDate_Time 4600
   \<and> snd (GenerateToken examplePlatform exampleWorld exampleUser ''key'' (3600 * Second))
       = Inr ''HS256.u1.HS256:key:HS256.u1''
   \<and> (\<exists>c. snd (ValidateToken examplePlatform (exampleWorld\<lparr>ticks := 2\<rparr>)
                 ''HS256.u1.HS256:key:HS256.u1'' ''key'') = Inr c
          \<and> UserID c = ''u1'' \<and> Email c = ''a@x.com'' \<and> Role c = ''engineer'')"
  using token_round_trip [where p = examplePlatform and w = exampleWorld
      and w' = "exampleWorld\<lparr>ticks := 2\<rparr>" and user = exampleUser and secret = "''key''"
      and ttl = "3600 * Second"]
  by (simp add: ex_defs NewNumericDate_def NumericDate_Time_def Second_def RoleEngineer_def)

text \<open>
  Claim C2, amended. Validation returns claims exactly when the token decodes, its
  header names one of the three HMAC methods, its signature is the keyed hash of its
  signing input under the secret, its expiry (if it has one) lies after the current
  time, and its not-before instant (if it has one) does not; it returns an error in
  every other case. The last condition is absent from the claim.
\<close>

theorem validate_token_iff:
  "(snd (ValidateToken p w s secret) = Inr c \<longleftrightarrow>
      (\<exists>sstr alg.
         decodeCompact p s = Compact sstr (Some alg) c (Some (hmacSum p alg secret sstr))
       \<and> alg \<in> set [''HS256'', ''HS384'', ''HS512'']
       \<and> (\<forall>exp. ExpiresAt c = Some exp \<longrightarrow> clock w (ticks w) < NumericDate_Time exp)
       \<and> (\<forall>nbf. NotBefore c = Some nbf \<longrightarrow> NumericDate_Time nbf \<le> clock w (ticks w))))
   \<and> ((\<forall>c. snd (ValidateToken p w s secret) \<noteq> Inr c) \<longrightarrow>
        (\<exists>e. snd (ValidateToken p w s secret) = Inl e))"
proof (intro conjI iffI impI)
  assume "snd (ValidateToken p w s secret) = Inr c"
  from ValidateToken_Inr_D [OF this] show "\<exists>sstr alg.
         decodeCompact p s = Compact sstr (Some alg) c (Some (hmacSum p alg secret sstr))
       \<and> alg \<in> set [''HS256'', ''HS384'', ''HS512'']
       \<and> (\<forall>exp. ExpiresAt c = Some exp \<longrightarrow> clock w (ticks w) < NumericDate_Time exp)
       \<and> (\<forall>nbf. NotBefore c = Some nbf \<longrightarrow> NumericDate_Time nbf \<le> clock w (ticks w))"
    unfolding Validate_None by blast
next
  assume "\<exists>sstr alg.
         decodeCompact p s = Compact sstr (Some alg) c (Some (hmacSum p alg secret sstr))
       \<and> alg \<in> set [''HS256'', ''HS384'', ''HS512'']
       \<and> (\<forall>exp. ExpiresAt c = Some exp \<longrightarrow> clock w (ticks w) < NumericDate_Time exp)
       \<and> (\<forall>nbf. NotBefore c = Some nbf \<longrightarrow> NumericDate_Time nbf \<le> clock w (ticks w))"
  then obtain sstr alg where
    d: "decodeCompact p s = Compact sstr (Some alg) c (Some (hmacSum p alg secret sstr))"
    and al: "alg \<in> set [''HS256'', ''HS384'', ''HS512'']"
    and v: "Validate (clock w (ticks w)) c = None"
    unfolding Validate_None by blast
  show "snd (ValidateToken p w s secret) = Inr c"
    unfolding ValidateToken_ok [OF d al refl v] by simp
next
  assume "\<forall>c. snd (ValidateToken p w s secret) \<noteq> Inr c"
  then show "\<exists>e. snd (ValidateToken p w s secret) = Inl e"
    by (cases "snd (ValidateToken p w s secret)") auto
qed


theorem validate_token_iff_witness:
  "snd (ValidateToken examplePlatform exampleWorld ''HS256.u1.HS256:key:HS256.u1'' ''key'')
     = Inr exampleClaims
   \<and> snd (ValidateToken examplePlatform exampleWorld ''HS256.u1.HS256:key:HS256.u1'' ''other'')
     \<noteq> Inr exampleClaims
   \<and> snd (ValidateToken examplePlatform (exampleWorld\<lparr>clock := (\<lambda>n. 4600 * Second)\<rparr>)
          ''HS256.u1.HS256:key:HS256.u1'' ''key'') \<noteq> Inr exampleClaims"
  using validate_token_iff [of examplePlatform exampleWorld "''HS256.u1.HS256:key:HS256.u1''"
      "''key''" exampleClaims]
    validate_token_iff [of examplePlatform exampleWorld "''HS256.u1.HS256:key:HS256.u1''"
      "''other''" exampleClaims]
    validate_token_iff [of examplePlatform "exampleWorld\<lparr>clock := (\<lambda>n. 4600 * Second)\<rparr>"
      "''HS256.u1.HS256:key:HS256.u1''" "''key''" exampleClaims]
  by (simp add: ex_defs NumericDate_Time_def Second_def)

text \<open>
  Claim C2 as stated fails: a well-formed HS256 token with a good signature and an
  expiry in the future is rejected because its not-before instant has not been reached.
\<close>

theorem validate_token_not_yet_valid:
  "decodeCompact examplePlatform ''HS256.u2.HS256:key:HS256.u2'' =
     Compact ''HS256.u2'' (Some ''HS256'') notYetClaims
       (Some (hmacSum examplePlatform ''HS256'' ''key'' ''HS256.u2''))
   \<and> GetSigningMethod ''HS256'' = Some (SigningMethodHMAC ''HS256'')
   \<and> Verify examplePlatform (SigningMethodHMAC ''HS256'') ''HS256.u2''
        ''HS256:key:HS256.u2'' ''key''
   \<and> ExpiresAt notYetClaims = Some 2000
   \<and> clock exampleWorld (ticks exampleWorld) < NumericDate_Time 2000
   \<and> snd (ValidateToken examplePlatform exampleWorld ''HS256.u2.HS256:key:HS256.u2'' ''key'')
       = Inl ErrTokenNotValidYet"
  by (simp add: ex_defs GetSigningMethod_def Verify_def NumericDate_Time_def Second_def
      ValidateToken_def ParseWithClaims_def ValidateToken_keyFunc_def Validate_def Now_def)

subsection \<open>The access-control gate\<close>

lemma hasAccess_iff: "hasAccess r L \<longleftrightarrow> r \<in> set L"
  by (induction L) auto

lemma no_options_route: "filter (\<lambda>x. Route_Method x = MethodOptions) routes = []"
  by (simp add: routes_def route_def MethodOptions_def)

text \<open>
  Claim C3, amended. A request with the pre-flight method never reaches the gate of an
  endpoint: no route is registered for the method, so the request is answered by the
  CORS middleware (status 204 from an allowed origin, 403 from another one) or by the
  no-route handler (status 404), the world is left as it was, and neither the gate nor a
  handler of an endpoint has any part in the result. The authentication stage itself,
  run on such a request, hands it unchanged to the rest of its chain; the role stage
  makes no exception for the method and aborts a request without a bound role.
\<close>

theorem preflight_not_routed:
  assumes "Request_Method c = MethodOptions"
  shows "ServeHTTP p r secret (w, c) = corsMiddleware NoRoute (w, c)
       \<and> fst (ServeHTTP p r secret (w, c)) = w
       \<and> written (snd (ServeHTTP p r secret (w, c))) =
           Some (if GetHeader c ''Origin'' = []
                    \<or> GetHeader c ''Origin'' = ''http://'' @ Request_Host c
                    \<or> GetHeader c ''Origin'' = ''https://'' @ Request_Host c
                 then (404, H [(''error'', ''Not Found''),
                               (''message'', ''The requested endpoint does not exist''),
                               (''path'', Request_Path c)])
                 else if GetHeader c ''Origin'' \<notin> set AllowOrigins then (403, NoBody)
                 else (204, NoBody))
       \<and> AuthMiddleware p secret next (w, c) = next (w, c)
       \<and> (Get c ''user_role'' = None \<longrightarrow>
            AuthMiddleware p secret (RoleMiddleware L next) (w, c) =
              (w, Abort (JSON StatusUnauthorized (H [(''error'', ''user role not found'')]) c)))"
proof -
  have serve: "ServeHTTP p r secret (w, c) = corsMiddleware NoRoute (w, c)"
    using assms no_options_route by (simp add: ServeHTTP_def)
  have cors: "corsMiddleware NoRoute (w, c) =
      (w, if GetHeader c ''Origin'' = []
             \<or> GetHeader c ''Origin'' = ''http://'' @ Request_Host c
             \<or> GetHeader c ''Origin'' = ''https://'' @ Request_Host c
          then JSON StatusNotFound
                 (H [(''error'', ''Not Found''),
                     (''message'', ''The requested endpoint does not exist''),
                     (''path'', Request_Path c)]) c
          else if GetHeader c ''Origin'' \<notin> set AllowOrigins
          then AbortWithStatus StatusForbidden c
          else AbortWithStatus StatusNoContent c)"
    using assms by (simp add: corsMiddleware_def NoRoute_def Let_def)
  have resp: "written (snd (corsMiddleware NoRoute (w, c))) =
           Some (if GetHeader c ''Origin'' = []
                    \<or> GetHeader c ''Origin'' = ''http://'' @ Request_Host c
                    \<or> GetHeader c ''Origin'' = ''https://'' @ Request_Host c
                 then (404, H [(''error'', ''Not Found''),
                               (''message'', ''The requested endpoint does not exist''),
                               (''path'', Request_Path c)])
                 else if GetHeader c ''Origin'' \<notin> set AllowOrigins then (403, NoBody)
                 else (204, NoBody))"
    unfolding cors
    by (simp add: JSON_def AbortWithStatus_def Abort_def StatusNotFound_def
        StatusForbidden_def StatusNoContent_def)
  have auth: "AuthMiddleware p secret h (w, c) = h (w, c)" for h
    using assms by (simp add: AuthMiddleware_def)
  have role: "RoleMiddleware L next (w, c) =
      (w, Abort (JSON StatusUnauthorized (H [(''error'', ''user role not found'')]) c))"
    if "Get c ''user_role'' = None"
    using that by (simp add: RoleMiddleware_def)
  show ?thesis
    using serve cors resp auth role by simp
qed

theorem preflight_not_routed_witness:
  "Request_Method corsPreflight = MethodOptions
   \<and> ServeHTTP examplePlatform exampleRouter ''key'' (exampleWorld, corsPreflight) =
       (exampleWorld, corsPreflight\<lparr>aborted := True, written := Some (204, NoBody)\<rparr>)
   \<and> AuthMiddleware examplePlatform ''key'' exampleHandler (exampleWorld, corsPreflight) =
       (exampleWorld, corsPreflight\<lparr>written := Some (200, H [])\<rparr>)"
proof -
  have m: "Request_Method corsPreflight = MethodOptions"
    by (simp add: corsPreflight_def adminPreflight_def MethodOptions_def)
  have o: "GetHeader corsPreflight ''Origin'' = ''http://localhost:3000''"
    "Request_Host corsPreflight = ''localhost:8080''"
    by (simp_all add: corsPreflight_def adminPreflight_def GetHeader_def)
  have "corsMiddleware NoRoute (exampleWorld, corsPreflight) =
      (exampleWorld, corsPreflight\<lparr>aborted := True, written := Some (204, NoBody)\<rparr>)"
    using m by (simp add: corsMiddleware_def o AllowOrigins_def AbortWithStatus_def Abort_def
        StatusNoContent_def Let_def)
  then show ?thesis
    using m preflight_not_routed [OF m, of examplePlatform exampleRouter "''key''"
        exampleWorld exampleHandler]
    by (simp add: exampleHandler_def JSON_def StatusOK_def)
qed

text \<open>
  Claim C3 as stated fails: a pre-flight request to the admin-only endpoint
  \<open>/api/admin/users\<close> is not passed to a handler. The router answers it with the
  no-route response, status 404; and the chain of that endpoint, run on the request,
  aborts in the role stage with status 401, where the handler alone would have answered
  with status 200.
\<close>

theorem preflight_not_passed_to_handler:
  "Request_Method adminPreflight = MethodOptions
   \<and> Request_Path adminPreflight = ''/api/admin/users''
   \<and> ServeHTTP examplePlatform exampleRouter ''key'' (exampleWorld, adminPreflight) =
       (exampleWorld,
        adminPreflight\<lparr>written :=
          Some (404, H [(''error'', ''Not Found''),
                        (''message'', ''The requested endpoint does not exist''),
                        (''path'', ''/api/admin/users'')])\<rparr>)
   \<and> routeChain examplePlatform ''key'' (ProtectedRoles [''admin'']) exampleHandler
         (exampleWorld, adminPreflight) =
       (exampleWorld,
        adminPreflight\<lparr>aborted := True,
          written := Some (401, H [(''error'', ''user role not found'')])\<rparr>)
   \<and> exampleHandler (exampleWorld, adminPreflight) =
       (exampleWorld, adminPreflight\<lparr>written := Some (200, H [])\<rparr>)"
proof -
  have tree: "filter (\<lambda>x. Route_Method x = Request_Method adminPreflight) routes = []"
    using no_options_route by (simp add: adminPreflight_def MethodOptions_def)
  have serve: "ServeHTTP examplePlatform exampleRouter ''key'' (exampleWorld, adminPreflight) =
       (exampleWorld,
        adminPreflight\<lparr>written :=
          Some (404, H [(''error'', ''Not Found''),
                        (''message'', ''The requested endpoint does not exist''),
                        (''path'', ''/api/admin/users'')])\<rparr>)"
  proof -
    have "ServeHTTP examplePlatform exampleRouter ''key'' (exampleWorld, adminPreflight) =
        corsMiddleware NoRoute (exampleWorld, adminPreflight)"
      by (simp add: ServeHTTP_def tree)
    then show ?thesis
      by (simp add: corsMiddleware_def NoRoute_def GetHeader_def JSON_def
          StatusNotFound_def adminPreflight_def Let_def)
  qed
  have chain: "routeChain examplePlatform ''key'' (ProtectedRoles [''admin'']) exampleHandler
         (exampleWorld, adminPreflight) =
       (exampleWorld,
        adminPreflight\<lparr>aborted := True,
          written := Some (401, H [(''error'', ''user role not found'')])\<rparr>)"
    by (simp add: routeChain_def AuthMiddleware_def RoleMiddleware_def adminPreflight_def
        MethodOptions_def Get_def Abort_def JSON_def StatusUnauthorized_def)
  show ?thesis
    using serve chain
    by (simp add: adminPreflight_def MethodOptions_def exampleHandler_def JSON_def
        StatusOK_def)
qed

text \<open>
  Claim C4. For a request whose bound role is the string \<open>R\<close>, the role stage hands the
  request to the rest of the chain, whatever that is, exactly when \<open>R\<close> is one of the
  accepted roles; otherwise it aborts with status 403 and the rest of the chain has no
  part in the result.
\<close>

theorem role_gate_exact:
  assumes "Get c ''user_role'' = Some (AnyString R)"
  shows "(R \<in> set L \<longrightarrow> RoleMiddleware L next (w, c) = next (w, c))
       \<and> (R \<notin> set L \<longrightarrow>
            RoleMiddleware L next (w, c) =
              (w, Abort (JSON StatusForbidden (H [(''error'', ''insufficient permissions'')]) c)))
       \<and> ((\<forall>h. RoleMiddleware L h (w, c) = h (w, c)) \<longleftrightarrow> R \<in> set L)"
proof -
  have admit: "RoleMiddleware L h (w, c) = h (w, c)" if "R \<in> set L" for h
    using assms that by (simp add: RoleMiddleware_def hasAccess_iff)
  have reject: "RoleMiddleware L h (w, c) =
      (w, Abort (JSON StatusForbidden (H [(''error'', ''insufficient permissions'')]) c))"
    if "R \<notin> set L" for h
    using assms that by (simp add: RoleMiddleware_def hasAccess_iff)
  have "R \<in> set L" if all: "\<forall>h. RoleMiddleware L h (w, c) = h (w, c)"
  proof (rule ccontr)
    assume "R \<notin> set L"
    then have "RoleMiddleware L (\<lambda>(w, c). (w, c\<lparr>aborted := False\<rparr>)) (w, c) =
      (w, Abort (JSON StatusForbidden (H [(''error'', ''insufficient permissions'')]) c))"
      by (rule reject)
    moreover have "RoleMiddleware L (\<lambda>(w, c). (w, c\<lparr>aborted := False\<rparr>)) (w, c) =
      (w, c\<lparr>aborted := False\<rparr>)"
      using all by simp
    ultimately have "aborted (Abort (JSON StatusForbidden
        (H [(''error'', ''insufficient permissions'')]) c)) = aborted (c\<lparr>aborted := False\<rparr>)"
      by simp
    then show False by (simp add: Abort_def)
  qed
  then show ?thesis
    using admit reject by blast
qed

theorem role_gate_exact_witness:
  "Get engineerContext ''user_role'' = Some (AnyString ''engineer'')
   \<and> RoleMiddleware [''admin''] exampleHandler (exampleWorld, engineerContext) =
       (exampleWorld,
        engineerContext\<lparr>aborted := True,
          written := Some (403, H [(''error'', ''insufficient permissions'')])\<rparr>)
   \<and> RoleMiddleware [''engineer'', ''admin''] exampleHandler (exampleWorld, engineerContext) =
       (exampleWorld, engineerContext\<lparr>written := Some (200, H [])\<rparr>)"
  using role_gate_exact [of engineerContext "''engineer''" "[''admin'']" exampleHandler
      exampleWorld]
    role_gate_exact [of engineerContext "''engineer''" "[''engineer'', ''admin'']"
      exampleHandler exampleWorld]
  by (simp add: engineerContext_def Get_def Abort_def JSON_def StatusForbidden_def
      StatusOK_def exampleHandler_def)

subsection \<open>Login\<close>

text \<open>
  Claim C9. A login for an email without an account and a login for an existing account
  with a password that does not verify fail with one and the same error, whose message is
  \<open>invalid email or password\<close>.
\<close>

theorem login_generic_failure:
  assumes "FindByEmail wA (LoginRequest_Email reqA) = (wA', Inr None)"
    and "FindByEmail wB (LoginRequest_Email reqB) = (wB', Inr (Some user))"
    and "\<not> CheckPassword p (LoginRequest_Password reqB) (User_PasswordHash user)"
  shows "\<exists>e. snd (Login p s wA reqA) = Inl e \<and> snd (Login p s wB reqB) = Inl e
            \<and> e = New ''invalid email or password''
            \<and> Error e = ''invalid email or password''"
  using assms by (simp add: Login_def)

theorem login_generic_failure_witness:
  "FindByEmail (exampleWorld\<lparr>users := []\<rparr>) ''a@x.com'' =
     (exampleWorld\<lparr>users := []\<rparr>, Inr None)
   \<and> FindByEmail exampleWorld ''a@x.com'' = (exampleWorld, Inr (Some exampleUser))
   \<and> \<not> CheckPassword examplePlatform ''wrong'' (User_PasswordHash exampleUser)
   \<and> snd (Login examplePlatform exampleAuthService (exampleWorld\<lparr>users := []\<rparr>)
          \<lparr>LoginRequest_Email = ''a@x.com'', LoginRequest_Password = ''Secret!1''\<rparr>)
     = Inl (New ''invalid email or password'')
   \<and> snd (Login examplePlatform exampleAuthService exampleWorld
          \<lparr>LoginRequest_Email = ''a@x.com'', LoginRequest_Password = ''wrong''\<rparr>)
     = Inl (New ''invalid email or password'')"
proof -
  have a: "FindByEmail (exampleWorld\<lparr>users := []\<rparr>)
      (LoginRequest_Email \<lparr>LoginRequest_Email = ''a@x.com'', LoginRequest_Password = ''Secret!1''\<rparr>)
      = (exampleWorld\<lparr>users := []\<rparr>, Inr None)"
    by (simp add: FindByEmail_def gorm_First_def gorm_exec_def exampleWorld_def)
  have b: "FindByEmail exampleWorld
      (LoginRequest_Email \<lparr>LoginRequest_Email = ''a@x.com'', LoginRequest_Password = ''wrong''\<rparr>)
      = (exampleWorld, Inr (Some exampleUser))"
    by (simp add: FindByEmail_def gorm_First_def gorm_exec_def exampleWorld_def exampleUser_def)
  have c: "\<not> CheckPassword examplePlatform
      (LoginRequest_Password \<lparr>LoginRequest_Email = ''a@x.com'', LoginRequest_Password = ''wrong''\<rparr>)
      (User_PasswordHash exampleUser)"
    by (simp add: CheckPassword_def examplePlatform_def exampleUser_def)
  show ?thesis
    using a b c login_generic_failure [OF a b c, of exampleAuthService] by simp
qed

subsection \<open>Cell status\<close>

text \<open>
  The layout: for a calendar reading in range the stamp is two digits of the day, a dot,
  two digits of the month, a dot, four digits of the year, a space, and hour, minute and
  second in two digits each, separated by colons.
\<close>

lemma zero_char: "char_of (48::nat) = CHR ''0''"
  by code_simp

lemma rep: "replicate 3 x = [x, x, x]" "replicate 2 x = [x, x]"
  by (simp_all add: numeral_3_eq_3 numeral_2_eq_2)

lemma digits_1: "n < 10 \<Longrightarrow> digits n = [char_of (48 + n)]"
  by (simp add: digits.simps)

lemma digits_2:
  assumes "10 \<le> n" "n < 100"
  shows "digits n = [char_of (48 + n div 10), char_of (48 + n mod 10)]"
proof -
  have "n div 10 < 10" using assms by simp
  then show ?thesis
    using assms by (subst digits.simps) (simp add: digits_1)
qed

lemma digits_3:
  assumes "100 \<le> n" "n < 1000"
  shows "digits n = [char_of (48 + n div 100), char_of (48 + n div 10 mod 10),
                     char_of (48 + n mod 10)]"
proof -
  have a: "10 \<le> n div 10" "n div 10 < 100" using assms by simp_all
  have b: "n div 10 div 10 = n div 100" by (simp add: div_mult2_eq [symmetric])
  have "digits n = digits (n div 10) @ [char_of (48 + n mod 10)]"
    using assms by (subst digits.simps) simp
  then show ?thesis
    by (simp add: digits_2 [OF a] b)
qed

lemma digits_4:
  assumes "1000 \<le> n" "n < 10000"
  shows "digits n = [char_of (48 + n div 1000), char_of (48 + n div 100 mod 10),
                     char_of (48 + n div 10 mod 10), char_of (48 + n mod 10)]"
proof -
  have a: "100 \<le> n div 10" "n div 10 < 1000" using assms by simp_all
  have b: "n div 10 div 100 = n div 1000" "n div 10 div 10 = n div 100"
    by (simp_all add: div_mult2_eq [symmetric])
  have "digits n = digits (n div 10) @ [char_of (48 + n mod 10)]"
    using assms by (subst digits.simps) simp
  then show ?thesis
    by (simp add: digits_3 [OF a] b)
qed

lemma appendInt_2:
  assumes "n < 100"
  shows "appendInt n 2 = [char_of (48 + n div 10), char_of (48 + n mod 10)]"
proof (cases "n < 10")
  case True
  then show ?thesis by (simp add: appendInt_def digits_1 zero_char)
next
  case False
  then have "10 \<le> n" by simp
  then show ?thesis using assms by (simp add: appendInt_def digits_2)
qed

lemma appendInt_4:
  assumes n: "n < 10000"
  shows "appendInt n 4 = [char_of (48 + n div 1000), char_of (48 + n div 100 mod 10),
                          char_of (48 + n div 10 mod 10), char_of (48 + n mod 10)]"
proof -
  consider "n < 10" | "10 \<le> n" "n < 100" | "100 \<le> n" "n < 1000" | "1000 \<le> n"
    by linarith
  then show ?thesis
  proof cases
    case 1
    then show ?thesis by (simp add: appendInt_def digits_1 rep zero_char)
  next
    case 2
    then show ?thesis by (simp add: appendInt_def digits_2 rep zero_char)
  next
    case 3
    then show ?thesis by (simp add: appendInt_def digits_3 rep zero_char)
  next
    case 4
    then show ?thesis using n by (simp add: appendInt_def digits_4)
  qed
qed

lemma Format_layout:
  assumes "Day c < 100" "Month c < 100" "Year c < 10000"
    "Hour c < 100" "Minute c < 100" "Sec c < 100"
  shows "Format c =
    [char_of (48 + Day c div 10), char_of (48 + Day c mod 10), CHR ''.'',
     char_of (48 + Month c div 10), char_of (48 + Month c mod 10), CHR ''.'',
     char_of (48 + Year c div 1000), char_of (48 + Year c div 100 mod 10),
     char_of (48 + Year c div 10 mod 10), char_of (48 + Year c mod 10), CHR '' '',
     char_of (48 + Hour c div 10), char_of (48 + Hour c mod 10), CHR '':'',
     char_of (48 + Minute c div 10), char_of (48 + Minute c mod 10), CHR '':'',
     char_of (48 + Sec c div 10), char_of (48 + Sec c mod 10)]"
  using assms by (simp add: Format_def appendInt_2 appendInt_4)

lemma gorm_exec_tables:
  "gorm_exec w = (f, w1) \<Longrightarrow>
     operation_records w1 = operation_records w \<and> cells w1 = cells w
     \<and> ru_infos w1 = ru_infos w \<and> users w1 = users w
     \<and> clock w1 = clock w \<and> ticks w1 = ticks w"
  by (auto simp: gorm_exec_def split: list.splits)

lemma gorm_exec_ticks:
  "gorm_exec (w\<lparr>ticks := n\<rparr>) = (fst (gorm_exec w), (snd (gorm_exec w))\<lparr>ticks := n\<rparr>)"
  by (simp add: gorm_exec_def split: list.splits)

lemma GetCellByID_clock:
  assumes "GetCellByID w cellID ruID = (w1, x)"
  shows "clock w1 = clock w \<and> ticks w1 = ticks w"
proof -
  obtain f w0 where e: "gorm_exec w = (f, w0)" by force
  then have "clock w0 = clock w \<and> ticks w0 = ticks w"
    using gorm_exec_tables by blast
  then show ?thesis
    using assms e
    by (auto simp: GetCellByID_def gorm_First_def split: option.splits list.splits)
qed

lemma save_row_mem: "r \<in> set (save_row key r tbl)"
  by (auto simp: save_row_def list_ex_iff)

lemmas row_defs = exampleCell_def unitA_def unitC_def record1_def record2_def record3_def
  record4_def

text \<open>
  Claim C6. When the pair of unit id and cell id resolves to a cell and the database runs
  the write, the status update returns the loaded cell with its status replaced by the
  requested one and \<open>lastOperation\<close> set to the formatted current time; when a grounding
  flag is supplied, \<open>isGrounded\<close> is that flag and \<open>lastGroundedOperation\<close> the formatted
  current time, and when none is supplied both keep their values. The modification
  timestamp is a reading of the clock taken during the call, every other field is
  unchanged, and the returned cell is a row of the table afterwards.
\<close>

theorem cell_status_update:
  assumes get: "GetCellByID w cellID ruID = (w1, Inr cell)"
    and run: "fst (gorm_exec w1) = None"
  shows "\<exists>w' c' k.
           UpdateCellStatus p w ruID cellID req = (w', Inr c')
         \<and> c' \<in> set (cells w')
         \<and> ticks w \<le> k \<and> k < ticks w'
         \<and> c' = (case UpdateCellStatusRequest_IsGrounded req of
                   None \<Rightarrow>
                     cell\<lparr>Cell_Status := UpdateCellStatusRequest_Status req,
                          Cell_LastOperation := Some (Format (localCivil p (clock w (ticks w)))),
                          Cell_UpdatedAt := clock w k\<rparr>
                 | Some g \<Rightarrow>
                     cell\<lparr>Cell_Status := UpdateCellStatusRequest_Status req,
                          Cell_IsGrounded := g,
                          Cell_LastGroundedOperation :=
                            Some (Format (localCivil p (clock w (ticks w)))),
                          Cell_LastOperation :=
                            Some (Format (localCivil p (clock w (ticks w + 1)))),
                          Cell_UpdatedAt := clock w k\<rparr>)"
proof -
  have ck: "clock w1 = clock w" "ticks w1 = ticks w"
    using get GetCellByID_clock by blast+
  obtain w2 where ex: "gorm_exec w1 = (None, w2)"
    using run by (cases "gorm_exec w1") auto
  have w2: "clock w2 = clock w" "ticks w2 = ticks w"
    using ex ck gorm_exec_tables by force+
  show ?thesis
  proof (cases "UpdateCellStatusRequest_IsGrounded req")
    case None
    then show ?thesis
      using get ex ck w2
      apply (simp add: UpdateCellStatus_def UpdateCell_def gorm_Save_Cell_def Now_def
          gorm_exec_ticks Let_def save_row_mem)
      apply (rule exI [of _ "Suc (Suc (ticks w))"])
      apply simp
      done
  next
    case (Some g)
    then show ?thesis
      using get ex ck w2
      apply (simp add: UpdateCellStatus_def UpdateCell_def gorm_Save_Cell_def Now_def
          gorm_exec_ticks Let_def save_row_mem)
      apply (rule exI [of _ "Suc (Suc (Suc (ticks w)))"])
      apply simp
      done
  qed
qed

theorem cell_status_update_witness:
  "GetCellByID exampleWorld 7 ''a'' = (exampleWorld, Inr exampleCell)
   \<and> fst (gorm_exec exampleWorld) = None
   \<and> UpdateCellStatus examplePlatform exampleWorld ''a'' 7
        \<lparr>UpdateCellStatusRequest_Status = ''OFF'',
         UpdateCellStatusRequest_IsGrounded = Some True\<rparr> =
       (exampleWorld\<lparr>ticks := 4,
          cells := [exampleCell\<lparr>Cell_Status := ''OFF'', Cell_IsGrounded := True,
                      Cell_LastGroundedOperation := Some ''31.10.2026 09:05:40'',
                      Cell_LastOperation := Some ''31.10.2026 09:05:40'',
                      Cell_UpdatedAt := 1000 * Second + 3\<rparr>]\<rparr>,
        Inr (exampleCell\<lparr>Cell_Status := ''OFF'', Cell_IsGrounded := True,
               Cell_LastGroundedOperation := Some ''31.10.2026 09:05:40'',
               Cell_LastOperation := Some ''31.10.2026 09:05:40'',
               Cell_UpdatedAt := 1000 * Second + 3\<rparr>))
   \<and> (\<exists>w' c'. UpdateCellStatus examplePlatform exampleWorld ''a'' 7
        \<lparr>UpdateCellStatusRequest_Status = ''ON'',
         UpdateCellStatusRequest_IsGrounded = None\<rparr> = (w', Inr c')
        \<and> Cell_Status c' = ''ON'' \<and> Cell_IsGrounded c' = False
        \<and> Cell_LastGroundedOperation c' = None
        \<and> Cell_LastOperation c' = Some ''31.10.2026 09:05:40'')"
proof -
  have get: "GetCellByID exampleWorld 7 ''a'' = (exampleWorld, Inr exampleCell)"
    by (simp add: GetCellByID_def gorm_First_def gorm_exec_def exampleWorld_def exampleCell_def)
  have run: "fst (gorm_exec exampleWorld) = None"
    by (simp add: gorm_exec_def exampleWorld_def)
  have stamp0: "Format (localCivil examplePlatform (clock exampleWorld 0)) =
      ''31.10.2026 09:05:40''"
    by code_simp
  have stamp1: "Format (localCivil examplePlatform (clock exampleWorld 1)) =
      ''31.10.2026 09:05:40''"
    by code_simp
  have grounded: "UpdateCellStatus examplePlatform exampleWorld ''a'' 7
        \<lparr>UpdateCellStatusRequest_Status = ''OFF'',
         UpdateCellStatusRequest_IsGrounded = Some True\<rparr> =
       (exampleWorld\<lparr>ticks := 4,
          cells := [exampleCell\<lparr>Cell_Status := ''OFF'', Cell_IsGrounded := True,
                      Cell_LastGroundedOperation := Some ''31.10.2026 09:05:40'',
                      Cell_LastOperation := Some ''31.10.2026 09:05:40'',
                      Cell_UpdatedAt := 1000 * Second + 3\<rparr>]\<rparr>,
        Inr (exampleCell\<lparr>Cell_Status := ''OFF'', Cell_IsGrounded := True,
               Cell_LastGroundedOperation := Some ''31.10.2026 09:05:40'',
               Cell_LastOperation := Some ''31.10.2026 09:05:40'',
               Cell_UpdatedAt := 1000 * Second + 3\<rparr>))"
    unfolding UpdateCellStatus_def get
    using stamp0 stamp1
    by (simp add: UpdateCell_def gorm_Save_Cell_def Now_def gorm_exec_def save_row_def
        exampleWorld_def exampleCell_def Let_def)
  show ?thesis
    using get run grounded
      cell_status_update [OF get run, of examplePlatform
        "\<lparr>UpdateCellStatusRequest_Status = ''ON'',
          UpdateCellStatusRequest_IsGrounded = None\<rparr>"]
      stamp0
    by (auto simp: exampleCell_def exampleWorld_def)
qed

subsection \<open>History\<close>

lemma sorted_desc_order:
  "sorted_wrt (\<lambda>a b. OperationRecord_CreatedAt b \<le> OperationRecord_CreatedAt a)
     (order_created_at_desc rs)"
proof -
  have "sorted (map (\<lambda>r. - OperationRecord_CreatedAt r) (order_created_at_desc rs))"
    unfolding order_created_at_desc_def by (rule sorted_sort_key)
  then show ?thesis
    by (simp add: sorted_map)
qed

lemma mset_order: "mset (order_created_at_desc rs) = mset rs"
  by (simp add: order_created_at_desc_def)

text \<open>
  Claim C7. When the database runs the query, the result holds only records of the unit,
  newest first by creation time; with a positive bound \<open>N\<close> it is the first \<open>N\<close> of
  them, so at most \<open>N\<close>, and with a bound that is zero or negative it is all of them, each
  once. The service returns what the repository returns, and the table is not changed.
\<close>

theorem history_query_bound:
  assumes "gorm_exec w = (None, w1)"
  shows "\<exists>full rs.
           mset full = mset (filter (\<lambda>r. OperationRecord_RuID r = ruID) (operation_records w))
         \<and> sorted_wrt (\<lambda>a b. OperationRecord_CreatedAt b \<le> OperationRecord_CreatedAt a) full
         \<and> rs = (if 0 < N then take (nat N) full else full)
         \<and> RuRepository_GetHistoryByRuID w ruID N = (w1, Inr rs)
         \<and> RuService_GetHistoryByRuID w ruID N = (w1, Inr rs)
         \<and> sorted_wrt (\<lambda>a b. OperationRecord_CreatedAt b \<le> OperationRecord_CreatedAt a) rs
         \<and> (0 < N \<longrightarrow> length rs \<le> nat N)
         \<and> (N \<le> 0 \<longrightarrow>
               mset rs =
                 mset (filter (\<lambda>r. OperationRecord_RuID r = ruID) (operation_records w)))
         \<and> operation_records w1 = operation_records w"
proof -
  let ?full = "order_created_at_desc
     (filter (\<lambda>r. OperationRecord_RuID r = ruID) (operation_records w))"
  let ?rs = "if 0 < N then take (nat N) ?full else ?full"
  have t: "operation_records w1 = operation_records w"
    using assms gorm_exec_tables by blast
  have r: "RuRepository_GetHistoryByRuID w ruID N = (w1, Inr ?rs)"
    using assms t by (simp add: RuRepository_GetHistoryByRuID_def gorm_Find_def Let_def)
  then have s: "RuService_GetHistoryByRuID w ruID N = (w1, Inr ?rs)"
    by (simp add: RuService_GetHistoryByRuID_def)
  have so: "sorted_wrt (\<lambda>a b. OperationRecord_CreatedAt b \<le> OperationRecord_CreatedAt a) ?rs"
    using sorted_desc_order by (simp add: sorted_wrt_take)
  have len: "0 < N \<longrightarrow> length ?rs \<le> nat N"
    by simp
  have all: "N \<le> 0 \<longrightarrow> mset ?rs =
      mset (filter (\<lambda>r. OperationRecord_RuID r = ruID) (operation_records w))"
    by (simp add: mset_order)
  show ?thesis
    using r s t so len all sorted_desc_order mset_order by blast
qed

theorem history_query_bound_witness:
  "gorm_exec exampleWorld = (None, exampleWorld)
   \<and> RuRepository_GetHistoryByRuID exampleWorld ''a'' 2 =
       (exampleWorld, Inr [record2, record3])
   \<and> RuRepository_GetHistoryByRuID exampleWorld ''a'' 0 =
       (exampleWorld, Inr [record2, record3, record1])
   \<and> (\<exists>rs. RuService_GetHistoryByRuID exampleWorld ''a'' 2 = (exampleWorld, Inr rs)
          \<and> length rs \<le> 2)"
proof -
  have run: "gorm_exec exampleWorld = (None, exampleWorld)"
    by (simp add: gorm_exec_def exampleWorld_def)
  have two: "RuRepository_GetHistoryByRuID exampleWorld ''a'' 2 =
       (exampleWorld, Inr [record2, record3])"
    by (simp add: RuRepository_GetHistoryByRuID_def gorm_Find_def gorm_exec_def Let_def
        order_created_at_desc_def exampleWorld_def row_defs)
  have all: "RuRepository_GetHistoryByRuID exampleWorld ''a'' 0 =
       (exampleWorld, Inr [record2, record3, record1])"
    by (simp add: RuRepository_GetHistoryByRuID_def gorm_Find_def gorm_exec_def Let_def
        order_created_at_desc_def exampleWorld_def row_defs)
  show ?thesis
    using run two all history_query_bound [OF run, of "''a''" 2]
    by auto
qed

lemma history_length:
  assumes "RuService_GetHistoryByRuID w ruID N = (w1, Inr rs)" and "0 < N"
  shows "length rs \<le> nat N"
proof -
  obtain f w0 where e: "gorm_exec w = (f, w0)" by force
  show ?thesis
    using assms e
    by (cases f)
      (auto simp: RuService_GetHistoryByRuID_def RuRepository_GetHistoryByRuID_def
        gorm_Find_def Let_def)
qed

lemma Atoi_empty: "Atoi [] = Inl ErrSyntax"
  by (simp add: Atoi_def)

lemma GetHistory_limit_pos: "0 < GetHistory_limit c"
  by (auto simp: GetHistory_limit_def Let_def split: sum.splits)

text \<open>
  Claim C10. The bound the history handler passes to the service is always positive: it
  is 50 when the \<open>limit\<close> parameter is missing, does not parse, or parses to a number that
  is not positive, and it is the parsed number otherwise. A successful response therefore
  never holds more records than that bound.
\<close>

theorem history_limit_default:
  "0 < GetHistory_limit c
   \<and> (Request_Query c ''limit'' = None \<longrightarrow> GetHistory_limit c = 50)
   \<and> (\<forall>e. Atoi (Query c ''limit'') = Inl e \<longrightarrow> GetHistory_limit c = 50)
   \<and> (\<forall>l. Atoi (Query c ''limit'') = Inr l \<and> l \<le> 0 \<longrightarrow> GetHistory_limit c = 50)
   \<and> (\<forall>l. Atoi (Query c ''limit'') = Inr l \<and> 0 < l \<longrightarrow> GetHistory_limit c = l)
   \<and> (\<forall>w1 c1 rs. GetHistory (w, c) = (w1, c1) \<and> written c1 = Some (StatusOK, Records rs)
         \<longrightarrow> RuService_GetHistoryByRuID w (Param c ''id'') (GetHistory_limit c) = (w1, Inr rs)
             \<and> length rs \<le> nat (GetHistory_limit c))"
proof -
  have a: "Request_Query c ''limit'' = None \<longrightarrow> GetHistory_limit c = 50"
    by (simp add: GetHistory_limit_def Query_def)
  have b: "\<forall>e. Atoi (Query c ''limit'') = Inl e \<longrightarrow> GetHistory_limit c = 50"
    by (auto simp: GetHistory_limit_def Let_def)
  have c: "\<forall>l. Atoi (Query c ''limit'') = Inr l \<and> l \<le> 0 \<longrightarrow> GetHistory_limit c = 50"
    by (auto simp: GetHistory_limit_def Let_def)
  have d: "\<forall>l. Atoi (Query c ''limit'') = Inr l \<and> 0 < l \<longrightarrow> GetHistory_limit c = l"
    using Atoi_empty by (auto simp: GetHistory_limit_def Let_def)
  have e: "RuService_GetHistoryByRuID w (Param c ''id'') (GetHistory_limit c) = (w1, Inr rs)
             \<and> length rs \<le> nat (GetHistory_limit c)"
    if "GetHistory (w, c) = (w1, c1)" "written c1 = Some (StatusOK, Records rs)"
    for w1 c1 rs
  proof -
    obtain w2 x where x: "RuService_GetHistoryByRuID w (Param c ''id'') (GetHistory_limit c)
        = (w2, x)" by force
    show ?thesis
    proof (cases x)
      case (Inl err)
      then show ?thesis
        using that x
        by (auto simp: GetHistory_def Let_def JSON_def StatusOK_def
            StatusInternalServerError_def)
    next
      case (Inr records)
      then have "w2 = w1" "records = rs"
        using that x by (auto simp: GetHistory_def Let_def JSON_def)
      then show ?thesis
        using x Inr history_length [OF _ GetHistory_limit_pos] by simp
    qed
  qed
  show ?thesis
    using GetHistory_limit_pos a b c d e by blast
qed

theorem history_limit_default_witness:
  "GetHistory_limit (historyRequest None) = 50
   \<and> Atoi ''abc'' = Inl ErrSyntax \<and> GetHistory_limit (historyRequest (Some ''abc'')) = 50
   \<and> Atoi ''0'' = Inr 0 \<and> GetHistory_limit (historyRequest (Some ''0'')) = 50
   \<and> Atoi ''-7'' = Inr (- 7) \<and> GetHistory_limit (historyRequest (Some ''-7'')) = 50
   \<and> Atoi ''2'' = Inr 2 \<and> GetHistory_limit (historyRequest (Some ''2'')) = 2
   \<and> GetHistory (exampleWorld, historyRequest (Some ''2'')) =
       (exampleWorld,
        (historyRequest (Some ''2''))\<lparr>written := Some (200, Records [record2, record3])\<rparr>)"
proof -
  have q: "Query (historyRequest v) ''limit'' = (case v of None \<Rightarrow> [] | Some s \<Rightarrow> s)" for v
    by (simp add: Query_def historyRequest_def)
  have at: "Atoi ''abc'' = Inl ErrSyntax" "Atoi ''0'' = Inr 0" "Atoi ''-7'' = Inr (- 7)"
    "Atoi ''2'' = Inr 2"
    by (simp_all add: Atoi_def isDigit_def decimal_def Let_def)
  have lim: "GetHistory_limit (historyRequest (Some ''2'')) = 2"
    by (simp add: GetHistory_limit_def q at)
  have par: "Param (historyRequest (Some ''2'')) ''id'' = ''a''"
    by (simp add: Param_def historyRequest_def)
  have svc: "RuService_GetHistoryByRuID exampleWorld ''a'' 2 =
      (exampleWorld, Inr [record2, record3])"
    by (simp add: RuService_GetHistoryByRuID_def RuRepository_GetHistoryByRuID_def
        gorm_Find_def gorm_exec_def Let_def order_created_at_desc_def exampleWorld_def
        row_defs)
  have h: "GetHistory (exampleWorld, historyRequest (Some ''2'')) =
       (exampleWorld,
        (historyRequest (Some ''2''))\<lparr>written := Some (200, Records [record2, record3])\<rparr>)"
    by (simp add: GetHistory_def lim par svc JSON_def StatusOK_def)
  have rq: "Request_Query (historyRequest v) ''limit'' = v" for v
    by (simp add: historyRequest_def)
  have l0: "GetHistory_limit (historyRequest None) = 50"
    using history_limit_default [of "historyRequest None" exampleWorld] by (simp add: rq)
  have l1: "GetHistory_limit (historyRequest (Some ''abc'')) = 50"
    using history_limit_default [of "historyRequest (Some ''abc'')" exampleWorld]
    by (simp add: q at)
  have l2: "GetHistory_limit (historyRequest (Some ''0'')) = 50"
    using history_limit_default [of "historyRequest (Some ''0'')" exampleWorld]
    by (simp add: q at)
  have l3: "GetHistory_limit (historyRequest (Some ''-7'')) = 50"
    using history_limit_default [of "historyRequest (Some ''-7'')" exampleWorld]
    by (simp add: q at)
  have l4: "GetHistory_limit (historyRequest (Some ''2'')) = 2"
    using history_limit_default [of "historyRequest (Some ''2'')" exampleWorld]
    by (simp add: q at)
  show ?thesis
    using at h l0 l1 l2 l3 l4 by simp
qed

subsection \<open>Bulk reassignment\<close>

lemma loop_acc:
  "UpdateRUsSubstation_loop w acc ids sid =
     (case UpdateRUsSubstation_loop w [] ids sid of
        (w', Inl e) \<Rightarrow> (w', Inl e)
      | (w', Inr us) \<Rightarrow> (w', Inr (acc @ us)))"
proof (induction ids arbitrary: w acc)
  case Nil
  then show ?case by simp
next
  case (Cons ruID ids)
  obtain w1 g where g: "GetRuByID w ruID = (w1, g)" by force
  show ?case
  proof (cases g)
    case (Inl e)
    then show ?thesis using g Cons.IH [of w1 acc] by simp
  next
    case (Inr r)
    obtain t w2 where n: "Now w1 = (t, w2)" by force
    obtain w3 r' oe where
      u: "UpdateRu w2 (r\<lparr>RUInfo_SubstationID := sid, RUInfo_UpdatedAt := t\<rparr>) = (w3, r', oe)"
      by (metis prod_cases3)
    show ?thesis
    proof (cases oe)
      case None
      then show ?thesis
        using g Inr n u Cons.IH [of w3 "acc @ [r']"] Cons.IH [of w3 "[r']"]
        by (simp split: prod.splits sum.splits)
    next
      case (Some e)
      then show ?thesis using g Inr n u by simp
    qed
  qed
qed

lemma batch_append:
  "UpdateRUsSubstation w (xs @ ys) sid =
     (case UpdateRUsSubstation w xs sid of
        (w', Inl e) \<Rightarrow> (w', Inl e)
      | (w', Inr us) \<Rightarrow>
          (case UpdateRUsSubstation w' ys sid of
             (w'', Inl e) \<Rightarrow> (w'', Inl e)
           | (w'', Inr vs) \<Rightarrow> (w'', Inr (us @ vs))))"
  unfolding UpdateRUsSubstation_def
proof (induction xs arbitrary: w)
  case Nil
  then show ?case by (simp split: prod.splits sum.splits)
next
  case (Cons ruID xs)
  obtain w1 g where g: "GetRuByID w ruID = (w1, g)" by force
  show ?case
  proof (cases g)
    case (Inl e)
    then show ?thesis using g Cons.IH [of w1] by simp
  next
    case (Inr r)
    obtain t w2 where n: "Now w1 = (t, w2)" by force
    obtain w3 r' oe where
      u: "UpdateRu w2 (r\<lparr>RUInfo_SubstationID := sid, RUInfo_UpdatedAt := t\<rparr>) = (w3, r', oe)"
      by (metis prod_cases3)
    show ?thesis
    proof (cases oe)
      case None
      then show ?thesis
        using g Inr n u Cons.IH [of w3] loop_acc [of w3 "[r']" "xs @ ys" sid]
          loop_acc [of w3 "[r']" xs sid]
        by (simp split: prod.splits sum.splits)
    next
      case (Some e)
      then show ?thesis using g Inr n u by simp
    qed
  qed
qed

lemma batch_single_skip:
  "GetRuByID w ruID = (w1, Inl e) \<Longrightarrow> UpdateRUsSubstation w (ruID # rest) sid =
     UpdateRUsSubstation w1 rest sid"
  by (simp add: UpdateRUsSubstation_def)

lemma batch_single_abort:
  "GetRuByID w ruID = (w1, Inr r) \<Longrightarrow> Now w1 = (t, w2) \<Longrightarrow>
   UpdateRu w2 (r\<lparr>RUInfo_SubstationID := sid, RUInfo_UpdatedAt := t\<rparr>) = (w3, r', Some e) \<Longrightarrow>
   UpdateRUsSubstation w (ruID # rest) sid =
     (w3, Inl (Wrap (''failed to update RU '' @ ruID) e))"
  by (simp add: UpdateRUsSubstation_def)

lemma batch_single_ok:
  "GetRuByID w ruID = (w1, Inr r) \<Longrightarrow> Now w1 = (t, w2) \<Longrightarrow>
   UpdateRu w2 (r\<lparr>RUInfo_SubstationID := sid, RUInfo_UpdatedAt := t\<rparr>) = (w3, r', None) \<Longrightarrow>
   UpdateRUsSubstation w (ruID # rest) sid =
     (case UpdateRUsSubstation w3 rest sid of
        (w4, Inl e) \<Rightarrow> (w4, Inl e)
      | (w4, Inr vs) \<Rightarrow> (w4, Inr (r' # vs)))"
  using loop_acc [of w3 "[r']" rest sid]
  by (simp add: UpdateRUsSubstation_def)

lemmas batch_defs = UpdateRUsSubstation_def GetRuByID_def UpdateRu_def gorm_Save_RUInfo_def
  gorm_First_def gorm_exec_def Now_def save_row_def Let_def

text \<open>
  Claim C8. Let a prefix of the batch have been processed without a failed write. If the
  next unit cannot be loaded, the batch goes on with the remaining ids as if that id were
  absent. If it is loaded and its write fails, the whole batch returns that error, in
  the world reached by the failed write, whatever ids remain. If its write succeeds, the
  unit is appended to the result and the batch goes on.
\<close>

theorem bulk_reassignment:
  assumes pre: "UpdateRUsSubstation w pre sid = (w0, Inr done)"
  shows "(\<forall>w1 e. GetRuByID w0 ruID = (w1, Inl e) \<longrightarrow>
            UpdateRUsSubstation w (pre @ ruID # rest) sid =
              (case UpdateRUsSubstation w1 rest sid of
                 (w2, Inl e') \<Rightarrow> (w2, Inl e')
               | (w2, Inr vs) \<Rightarrow> (w2, Inr (done @ vs))))
       \<and> (\<forall>w1 r t w2 w3 r' e.
            GetRuByID w0 ruID = (w1, Inr r) \<and> Now w1 = (t, w2)
            \<and> UpdateRu w2 (r\<lparr>RUInfo_SubstationID := sid, RUInfo_UpdatedAt := t\<rparr>)
                = (w3, r', Some e) \<longrightarrow>
            UpdateRUsSubstation w (pre @ ruID # rest) sid =
              (w3, Inl (Wrap (''failed to update RU '' @ ruID) e)))
       \<and> (\<forall>w1 r t w2 w3 r'.
            GetRuByID w0 ruID = (w1, Inr r) \<and> Now w1 = (t, w2)
            \<and> UpdateRu w2 (r\<lparr>RUInfo_SubstationID := sid, RUInfo_UpdatedAt := t\<rparr>)
                = (w3, r', None) \<longrightarrow>
            UpdateRUsSubstation w (pre @ ruID # rest) sid =
              (case UpdateRUsSubstation w3 rest sid of
                 (w4, Inl e') \<Rightarrow> (w4, Inl e')
               | (w4, Inr vs) \<Rightarrow> (w4, Inr (done @ r' # vs))))"
proof -
  have app: "UpdateRUsSubstation w (pre @ ruID # rest) sid =
     (case UpdateRUsSubstation w0 (ruID # rest) sid of
        (w'', Inl e) \<Rightarrow> (w'', Inl e)
      | (w'', Inr vs) \<Rightarrow> (w'', Inr (done @ vs)))"
    using pre batch_append [of w pre "ruID # rest" sid] by simp
  have skip: "UpdateRUsSubstation w (pre @ ruID # rest) sid =
              (case UpdateRUsSubstation w1 rest sid of
                 (w2, Inl e') \<Rightarrow> (w2, Inl e')
               | (w2, Inr vs) \<Rightarrow> (w2, Inr (done @ vs)))"
    if "GetRuByID w0 ruID = (w1, Inl e)" for w1 e
    using that app batch_single_skip [of w0 ruID w1 e rest sid] by simp
  have abort: "UpdateRUsSubstation w (pre @ ruID # rest) sid =
              (w3, Inl (Wrap (''failed to update RU '' @ ruID) e))"
    if "GetRuByID w0 ruID = (w1, Inr r)" "Now w1 = (t, w2)"
      "UpdateRu w2 (r\<lparr>RUInfo_SubstationID := sid, RUInfo_UpdatedAt := t\<rparr>) = (w3, r', Some e)"
    for w1 r t w2 w3 r' e
    using that app batch_single_abort [of w0 ruID w1 r t w2 sid w3 r' e rest] by simp
  have ok: "UpdateRUsSubstation w (pre @ ruID # rest) sid =
              (case UpdateRUsSubstation w3 rest sid of
                 (w4, Inl e') \<Rightarrow> (w4, Inl e')
               | (w4, Inr vs) \<Rightarrow> (w4, Inr (done @ r' # vs)))"
    if "GetRuByID w0 ruID = (w1, Inr r)" "Now w1 = (t, w2)"
      "UpdateRu w2 (r\<lparr>RUInfo_SubstationID := sid, RUInfo_UpdatedAt := t\<rparr>) = (w3, r', None)"
    for w1 r t w2 w3 r'
    using that app batch_single_ok [of w0 ruID w1 r t w2 sid w3 r' rest]
    by (simp split: prod.splits sum.splits)
  show ?thesis
    using skip abort ok by blast
qed

theorem bulk_reassignment_witness:
  "UpdateRUsSubstation exampleWorld [''a''] ''ps-64'' =
     (exampleWorld\<lparr>ticks := 2,
        ru_infos := [unitA\<lparr>RUInfo_SubstationID := ''ps-64'',
                             RUInfo_UpdatedAt := 1000 * Second + 1\<rparr>, unitC]\<rparr>,
      Inr [unitA\<lparr>RUInfo_SubstationID := ''ps-64'', RUInfo_UpdatedAt := 1000 * Second + 1\<rparr>])
   \<and> UpdateRUsSubstation exampleWorld [''a'', ''b'', ''c''] ''ps-64'' =
     (exampleWorld\<lparr>ticks := 4,
        ru_infos := [unitA\<lparr>RUInfo_SubstationID := ''ps-64'',
                             RUInfo_UpdatedAt := 1000 * Second + 1\<rparr>,
                     unitC\<lparr>RUInfo_SubstationID := ''ps-64'',
                             RUInfo_UpdatedAt := 1000 * Second + 3\<rparr>]\<rparr>,
      Inr [unitA\<lparr>RUInfo_SubstationID := ''ps-64'', RUInfo_UpdatedAt := 1000 * Second + 1\<rparr>,
           unitC\<lparr>RUInfo_SubstationID := ''ps-64'', RUInfo_UpdatedAt := 1000 * Second + 3\<rparr>])
   \<and> snd (UpdateRUsSubstation
            (exampleWorld\<lparr>faults := [None, None, Some (New ''connection lost'')]\<rparr>)
            [''b'', ''a'', ''c''] ''ps-64'') =
       Inl (Wrap ''failed to update RU a''
              (Wrap ''failed to update RU'' (New ''connection lost'')))"
proof -
  let ?a = "unitA\<lparr>RUInfo_SubstationID := ''ps-64'', RUInfo_UpdatedAt := 1000 * Second + 1\<rparr>"
  let ?w0 = "exampleWorld\<lparr>ticks := 2, ru_infos := [?a, unitC]\<rparr>"
  let ?e = "New ''connection lost''"
  let ?f = "exampleWorld\<lparr>faults := [None, None, Some ?e]\<rparr>"
  let ?f1 = "exampleWorld\<lparr>faults := [None, Some ?e]\<rparr>"
  let ?f2 = "exampleWorld\<lparr>faults := [Some ?e]\<rparr>"
  let ?f3 = "exampleWorld\<lparr>ticks := 2, faults := []\<rparr>"
  have pre: "UpdateRUsSubstation exampleWorld [''a''] ''ps-64'' = (?w0, Inr [?a])"
    by (simp add: batch_defs exampleWorld_def unitA_def unitC_def)
  have missing: "GetRuByID ?w0 ''b'' =
      (?w0, Inl (Wrap ''failed to get RU by ID'' ErrRecordNotFound))"
    by (simp add: batch_defs exampleWorld_def unitA_def unitC_def)
  have last: "UpdateRUsSubstation ?w0 [''c''] ''ps-64'' =
     (exampleWorld\<lparr>ticks := 4,
        ru_infos := [?a, unitC\<lparr>RUInfo_SubstationID := ''ps-64'',
                             RUInfo_UpdatedAt := 1000 * Second + 3\<rparr>]\<rparr>,
      Inr [unitC\<lparr>RUInfo_SubstationID := ''ps-64'', RUInfo_UpdatedAt := 1000 * Second + 3\<rparr>])"
    by (simp add: batch_defs exampleWorld_def unitA_def unitC_def)
  have skip: "UpdateRUsSubstation exampleWorld ([''a''] @ ''b'' # [''c'']) ''ps-64'' =
     (exampleWorld\<lparr>ticks := 4,
        ru_infos := [?a, unitC\<lparr>RUInfo_SubstationID := ''ps-64'',
                             RUInfo_UpdatedAt := 1000 * Second + 3\<rparr>]\<rparr>,
      Inr [?a, unitC\<lparr>RUInfo_SubstationID := ''ps-64'',
                      RUInfo_UpdatedAt := 1000 * Second + 3\<rparr>])"
    using bulk_reassignment [OF pre, of "''b''" "[''c'']"] missing last by simp
  have pre2: "UpdateRUsSubstation ?f [''b''] ''ps-64'' = (?f1, Inr [])"
    by (simp add: batch_defs exampleWorld_def unitA_def unitC_def)
  have load: "GetRuByID ?f1 ''a'' = (?f2, Inr unitA)"
    by (simp add: batch_defs exampleWorld_def unitA_def unitC_def)
  have now: "Now ?f2 = (1000 * Second, ?f2\<lparr>ticks := 1\<rparr>)"
    by (simp add: Now_def exampleWorld_def)
  have save: "UpdateRu (?f2\<lparr>ticks := 1\<rparr>)
      (unitA\<lparr>RUInfo_SubstationID := ''ps-64'', RUInfo_UpdatedAt := 1000 * Second\<rparr>) =
      (?f3, ?a, Some (Wrap ''failed to update RU'' ?e))"
    by (simp add: batch_defs exampleWorld_def unitA_def)
  have abort: "UpdateRUsSubstation ?f ([''b''] @ ''a'' # [''c'']) ''ps-64'' =
       (?f3, Inl (Wrap (''failed to update RU '' @ ''a'') (Wrap ''failed to update RU'' ?e)))"
    using bulk_reassignment [OF pre2, of "''a''" "[''c'']"] load now save by blast
  show ?thesis
    using pre skip abort by simp
qed

end
